theory Spec2Isabelle
  imports Complex_Main "HOL-Library.Word" "HOL-Library.Sublist"
begin

section \<open>The MPX generator (src/mpx\_gen.c)\<close>

text \<open>
  A shallow embedding of \<^verbatim>\<open>mpx_gen.c\<close>: the format stage \<^verbatim>\<open>postprocess\<close>, the
  teardown \<^verbatim>\<open>terminate\<close>, the error exit \<^verbatim>\<open>fatal\<close>, the pipeline
  \<^verbatim>\<open>generate_mpx\<close> and the option handling of \<^verbatim>\<open>main\<close>.

  Conventions of the embedding:
  \<^item> C \<^verbatim>\<open>int\<close> values are \<open>int\<close>; sizes and indices are \<open>nat\<close>; the 16-bit program
    identifier is a \<open>16 word\<close>.
  \<^item> C \<^verbatim>\<open>float\<close> and \<^verbatim>\<open>double\<close> values are \<open>real\<close>: the arithmetic of the source is
    kept operation by operation, its rounding to the binary format is idealised away.
  \<^item> A conversion from a floating value to an integer type truncates towards zero and is
    undefined in C when the truncated value does not fit; an access outside an array is
    undefined as well. Both are explicit results of the model.
  \<^item> Every call into a collaborator (audio sink, rate converter, baseband source, control
    pipe, RDS configuration, standard output) is recorded as an event of a trace; what
    the collaborator answers is given by an environment.
\<close>

subsection \<open>Constants\<close>

definition DATA_SIZE :: nat where
  "DATA_SIZE = 4096"

definition OUTPUT_DATA_SIZE :: nat where
  "OUTPUT_DATA_SIZE = 8192"

subsection \<open>Conversions of C\<close>

definition c_trunc :: "real \<Rightarrow> int" where
  \<comment> \<open>the integral part of a floating value: rounding towards zero\<close>
  "c_trunc x = (if 0 \<le> x then \<lfloor>x\<rfloor> else \<lceil>x\<rceil>)"

definition float_to_short :: "real \<Rightarrow> int option" where
  \<comment> \<open>the implicit conversion of \<^verbatim>\<open>outbuf[j+1] = inbuf[i]\<close>; \<open>None\<close> is undefined behaviour\<close>
  "float_to_short x =
     (let n = c_trunc x in if - 32768 \<le> n \<and> n \<le> 32767 then Some n else None)"

definition float_to_int :: "real \<Rightarrow> int option" where
  \<comment> \<open>the cast \<^verbatim>\<open>(int)\<close> of a double; \<open>None\<close> is undefined behaviour\<close>
  "float_to_int x =
     (let n = c_trunc x in if - 2147483648 \<le> n \<and> n \<le> 2147483647 then Some n else None)"

subsection \<open>The format stage: postprocess\<close>

text \<open>
  \<^verbatim>\<open>
  void postprocess(float *inbuf, short *outbuf, size_t inbufsize, float volume) {
      int j = 0;
      for (int i = 0; i < inbufsize; i++) {
          inbuf[i] /= 10;
          inbuf[i] *= 32767;
          inbuf[i] *= (volume / 100);
          outbuf[j] = outbuf[j+1] = inbuf[i];
          j += 2;
      }
  }
  \<close>
  The loop is the recursion \<open>postprocess_loop\<close> on the pair \<open>(i, j)\<close>; the two buffers
  are passed and returned. \<open>None\<close> stands for undefined behaviour: an index outside a
  buffer or a sample that does not fit a \<^verbatim>\<open>short\<close>.
\<close>

function postprocess_loop ::
  "nat \<Rightarrow> nat \<Rightarrow> real list \<Rightarrow> int list \<Rightarrow> nat \<Rightarrow> real \<Rightarrow> (real list \<times> int list) option"
where
  "postprocess_loop i j inbuf outbuf inbufsize volume =
     (if i < inbufsize then
        (if length inbuf \<le> i \<or> length outbuf \<le> j + 1 then None
         else
           let x1 = inbuf ! i / 10;
               x2 = x1 * 32767;
               x3 = x2 * (volume / 100)
           in case float_to_short x3 of
                None \<Rightarrow> None
              | Some s \<Rightarrow>
                  postprocess_loop (i + 1) (j + 2) (inbuf[i := x3])
                    (outbuf[j + 1 := s, j := s]) inbufsize volume)
      else Some (inbuf, outbuf))"
  by pat_completeness auto
termination
  by (relation "measure (\<lambda>(i, j, inbuf, outbuf, inbufsize, volume). inbufsize - i)") auto

definition postprocess ::
  "real list \<Rightarrow> int list \<Rightarrow> nat \<Rightarrow> real \<Rightarrow> (real list \<times> int list) option"
where
  "postprocess inbuf outbuf inbufsize volume = postprocess_loop 0 0 inbuf outbuf inbufsize volume"

definition scaled :: "real \<Rightarrow> real \<Rightarrow> real" where
  \<comment> \<open>the value the three compound assignments leave in \<^verbatim>\<open>inbuf[i]\<close>\<close>
  "scaled x volume = x / 10 * 32767 * (volume / 100)"

subsection \<open>Functions of the C library used by main\<close>

text \<open>
  \<^verbatim>\<open>atoi\<close> as the C standard describes it: white space is skipped, an optional sign is
  read, then decimal digits as long as there are any; without a digit the result is 0 and
  no error is reported. (A value outside \<^verbatim>\<open>int\<close> is undefined in C; the model returns the
  mathematical value.) \<^verbatim>\<open>atof\<close> and \<^verbatim>\<open>strtol\<close> are taken from the environment below.
\<close>

definition is_space :: "char \<Rightarrow> bool" where
  "is_space c = (c \<in> set [CHR '' '', CHR 0x09, CHR 0x0A, CHR 0x0B, CHR 0x0C, CHR 0x0D])"

definition is_digit :: "char \<Rightarrow> bool" where
  "is_digit c = (c \<in> set ''0123456789'')"

definition digit_value :: "char \<Rightarrow> int" where
  "digit_value c = int (of_char c) - 48"

fun atoi_digits :: "int \<Rightarrow> string \<Rightarrow> int" where
  "atoi_digits acc [] = acc"
| "atoi_digits acc (c # cs) =
     (if is_digit c then atoi_digits (acc * 10 + digit_value c) cs else acc)"

definition atoi :: "string \<Rightarrow> int" where
  "atoi s =
     (case dropWhile is_space s of
        [] \<Rightarrow> 0
      | c # cs \<Rightarrow>
          if c = CHR ''-'' then - atoi_digits 0 cs
          else if c = CHR ''+'' then atoi_digits 0 cs
          else atoi_digits 0 (c # cs))"

subsection \<open>Collaborators, events and the process state\<close>

type_synonym handle = nat

datatype buffer = Mpx_data | Rds_data | Resample_out | Dev_out

fun capacity :: "buffer \<Rightarrow> nat" where
  \<comment> \<open>the element counts of the four arrays declared in \<^verbatim>\<open>generate_mpx\<close>\<close>
  "capacity Mpx_data = DATA_SIZE"
| "capacity Rds_data = DATA_SIZE"
| "capacity Resample_out = DATA_SIZE"
| "capacity Dev_out = OUTPUT_DATA_SIZE"

record SRC_DATA =
  src_ratio :: real
  output_frames :: nat
  input_frames :: nat
  data_in :: "buffer option"
  data_out :: "buffer option"

datatype message =
    Msg_cannot_open_sound_device
  | Msg_src_new_failed int
  | Msg_starting
  | Msg_rds_options
  | Msg_rds_on int "16 word" string int
  | Msg_rt string
  | Msg_af_head
  | Msg_af_entry real
  | Msg_newline
  | Msg_rds_off int
  | Msg_reading_control string
  | Msg_failed_control string
  | Msg_src_process_failed int
  | Msg_could_not_play
  | Msg_stopped
  | Msg_af_range
  | Msg_help
  | Msg_requires_argument
  | Msg_invalid_option

datatype event =
    Sigaction nat
  | Ao_initialize
  | Ao_default_driver_id int
  | Ao_open_live int int int int int "handle option"
  | Src_new int int "handle option"
  | Fm_mpx_open "string option" nat int int
  | Set_rds_pi "16 word"
  | Set_rds_ps string
  | Set_rds_rt string
  | Set_rds_pty int
  | Set_rds_tp int
  | Set_rds_ms int
  | Set_rds_ab int
  | Set_rds_af "int list"
  | Open_control_pipe string int
  | Poll_control_pipe
  | Fm_mpx_get_samples int int int
  | Src_process "handle option" SRC_DATA int
  | Ao_play "handle option" "int list" nat int
  | Fm_mpx_close
  | Close_control_pipe
  | Ao_close "handle option"
  | Ao_shutdown
  | Src_delete "handle option"
  | Stdout message
  | Stderr message
  | Exit int

text \<open>
  The process state: the two globals of the file and the trace of calls made so far.
  \<^verbatim>\<open>device\<close> and \<^verbatim>\<open>src_state\<close> have static storage, so both start as null pointers.
\<close>

record world =
  g_device :: "handle option"
  g_src_state :: "handle option"
  trace :: "event list"

definition world_init :: world where
  "world_init = \<lparr>g_device = None, g_src_state = None, trace = []\<rparr>"

definition emit :: "event \<Rightarrow> world \<Rightarrow> world" where
  "emit ev w = w\<lparr>trace := trace w @ [ev]\<rparr>"

text \<open>
  How a run ends: the process has exited with a code, it is still in the run loop when
  the observed answers of the collaborators end, or it has left defined behaviour.
\<close>

datatype outcome = Exited int | Running | Undefined

text \<open>One pass of the run loop as the collaborators answer it.\<close>

record iteration =
  get_samples_ret :: int
  src_process_ret :: int
  src_process_out :: "real list"
  ao_play_ret :: int

record env =
  atof :: "string \<Rightarrow> real"
  strtol :: "string \<Rightarrow> int \<Rightarrow> int"
  ao_default_driver_id_ret :: int
  ao_open_live_ret :: "handle option"
  src_new_ret :: "handle option"
  src_new_error :: int
  fm_mpx_open_ret :: int
  open_control_pipe_ret :: int
  script :: "iteration list"

subsection \<open>terminate and fatal\<close>

text \<open>
  \<^verbatim>\<open>
  static void terminate(int num)
  {
      fm_mpx_close();
      close_control_pipe();
      ao_close(device);
      ao_shutdown();
      src_delete(src_state);
      printf("MPX generator stopped\n");
      exit(num);
  }
  \<close>
  \<^verbatim>\<open>device\<close> and \<^verbatim>\<open>src_state\<close> are the globals here.
\<close>

definition c_exit :: "int \<Rightarrow> world \<Rightarrow> outcome \<times> world" where
  "c_exit num w = (Exited num, emit (Exit num) w)"

definition terminate_stmts :: "(world \<Rightarrow> world) list" where
  "terminate_stmts =
     [emit Fm_mpx_close,
      emit Close_control_pipe,
      (\<lambda>w. emit (Ao_close (g_device w)) w),
      emit Ao_shutdown,
      (\<lambda>w. emit (Src_delete (g_src_state w)) w),
      emit (Stdout Msg_stopped)]"

definition run_stmts :: "(world \<Rightarrow> world) list \<Rightarrow> world \<Rightarrow> world" where
  "run_stmts stmts w = foldl (\<lambda>w' stmt. stmt w') w stmts"

definition terminate :: "int \<Rightarrow> world \<Rightarrow> outcome \<times> world" where
  "terminate num w = c_exit num (run_stmts terminate_stmts w)"

text \<open>
  \<^verbatim>\<open>generate_mpx\<close> installs \<^verbatim>\<open>terminate\<close> as the handler of the signals 0 to 24, with an
  empty mask, and \<^verbatim>\<open>main\<close> calls it as an ordinary function. A signal \<open>sig\<close> delivered
  while a call \<^verbatim>\<open>terminate(num)\<close> has executed its first \<open>k\<close> statements runs the handler
  \<^verbatim>\<open>terminate(sig)\<close> on the state reached, and the handler ends the process.
\<close>

definition terminate_interrupted :: "nat \<Rightarrow> int \<Rightarrow> int \<Rightarrow> world \<Rightarrow> outcome \<times> world" where
  "terminate_interrupted k num sig w = terminate sig (run_stmts (take k terminate_stmts) w)"

text \<open>
  \<^verbatim>\<open>
  static void fatal(char *fmt, ...)
  {
      va_list ap;
      va_start(ap, fmt);
      vfprintf(stderr, fmt, ap);
      va_end(ap);
      exit(1);
  }
  \<close>
\<close>

definition fatal :: "message \<Rightarrow> world \<Rightarrow> outcome \<times> world" where
  "fatal msg w = c_exit 1 (emit (Stderr msg) w)"

subsection \<open>generate\_mpx\<close>

text \<open>Constants of the headers \<^verbatim>\<open>ao/ao.h\<close> and \<^verbatim>\<open>samplerate.h\<close>.\<close>

definition AO_FMT_LITTLE :: int where
  "AO_FMT_LITTLE = 1"

definition SRC_SINC_FASTEST :: int where
  "SRC_SINC_FASTEST = 2"

definition install_handlers :: "world \<Rightarrow> world" where
  \<comment> \<open>\<^verbatim>\<open>for (int i = 0; i < 25; i++) { ... sa.sa_handler = terminate; sigaction(i, &sa, NULL); }\<close>\<close>
  "install_handlers w = foldl (\<lambda>w' i. emit (Sigaction i) w') w [0..<25]"

text \<open>
  The run loop \<^verbatim>\<open>for (;;) { ... }\<close> of \<^verbatim>\<open>generate_mpx\<close>, one list element per pass. The
  result \<open>Inr ()\<close> is a \<^verbatim>\<open>break\<close>; \<open>Inl Running\<close> says that the loop has not been left when
  the answers end; \<open>Inl Undefined\<close> that the converter wrote past \<^verbatim>\<open>resample_out\<close> or that
  \<^verbatim>\<open>postprocess\<close> left defined behaviour. The converter's answer \<open>src_process_out\<close> is the
  list of samples it stores at \<^verbatim>\<open>data_out\<close>; its length is \<^verbatim>\<open>output_frames_gen\<close>.
\<close>

fun run_loop ::
  "iteration list \<Rightarrow> string option \<Rightarrow> int \<Rightarrow> int \<Rightarrow> real \<Rightarrow> handle option \<Rightarrow> SRC_DATA \<Rightarrow>
   real list \<Rightarrow> int list \<Rightarrow> world \<Rightarrow> (outcome + unit) \<times> world"
where
  "run_loop [] control_pipe rds wait mpx src_state src_data resample_out dev_out w =
     (Inl Running, w)"
| "run_loop (it # its) control_pipe rds wait mpx src_state src_data resample_out dev_out w =
     (let w = (if control_pipe \<noteq> None then emit Poll_control_pipe w else w);
          w = emit (Fm_mpx_get_samples rds wait (get_samples_ret it)) w
      in
      if get_samples_ret it < 0 then (Inr (), w)
      else
        let src_data = src_data\<lparr>input_frames := DATA_SIZE, data_in := Some Mpx_data,
                                 data_out := Some Resample_out\<rparr>;
            src_error = src_process_ret it;
            w = emit (Src_process src_state src_data src_error) w
        in
        if src_error \<noteq> 0 then (Inr (), emit (Stderr (Msg_src_process_failed src_error)) w)
        else
          let generated_frames = length (src_process_out it) in
          if capacity Resample_out < generated_frames then (Inl Undefined, w)
          else
            let resample_out = src_process_out it @ drop generated_frames resample_out in
            case postprocess resample_out dev_out generated_frames mpx of
              None \<Rightarrow> (Inl Undefined, w)
            | Some (resample_out, dev_out) \<Rightarrow>
                let w = emit (Ao_play (g_device w) (take (2 * generated_frames) dev_out)
                                (generated_frames * 4) (ao_play_ret it)) w
                in
                if ao_play_ret it = 0 then (Inr (), emit (Stderr Msg_could_not_play) w)
                else run_loop its control_pipe rds wait mpx src_state src_data
                       resample_out dev_out w)"

definition print_rds ::
  "int \<Rightarrow> 16 word \<Rightarrow> string \<Rightarrow> string \<Rightarrow> int list \<Rightarrow> int \<Rightarrow> world \<Rightarrow> world"
where
  \<comment> \<open>the \<^verbatim>\<open>if(rds) { ... } else { ... }\<close> after \<^verbatim>\<open>printf("RDS Options:\n")\<close>\<close>
  "print_rds rds pi_code ps rt af_array pty w =
     (if rds \<noteq> 0 then
        let w = emit (Stdout (Msg_rds_on rds pi_code ps pty)) w;
            w = emit (Stdout (Msg_rt rt)) w
        in
        if af_array ! 0 \<noteq> 0 then
          let w = emit (Set_rds_af af_array) w;
              w = emit (Stdout Msg_af_head) w;
              w = foldl (\<lambda>w' f. emit (Stdout (Msg_af_entry (real_of_int (af_array ! f + 875) / 10))) w')
                    w [1..<nat (af_array ! 0 + 1)]
          in emit (Stdout Msg_newline) w
        else w
      else emit (Stdout (Msg_rds_off rds)) w)"

definition init_control_pipe :: "env \<Rightarrow> string option \<Rightarrow> world \<Rightarrow> string option \<times> world" where
  \<comment> \<open>the \<^verbatim>\<open>if(control_pipe) { ... }\<close> before the loop; the first component is \<^verbatim>\<open>control_pipe\<close> afterwards\<close>
  "init_control_pipe e control_pipe w =
     (case control_pipe of
        None \<Rightarrow> (None, w)
      | Some path \<Rightarrow>
          let w = emit (Open_control_pipe path (open_control_pipe_ret e)) w in
          if open_control_pipe_ret e = 0 then (Some path, emit (Stdout (Msg_reading_control path)) w)
          else (None, emit (Stdout (Msg_failed_control path)) w))"

text \<open>
  \<^verbatim>\<open>generate_mpx\<close>. The result \<open>Inr n\<close> is \<^verbatim>\<open>return n\<close>. The local \<^verbatim>\<open>SRC_STATE *src_state\<close>
  declared in the function hides the global of the same name, so the converter handle is
  the let-bound \<open>src_state\<close> and the global \<open>g_src_state\<close> is never written. The arrays are
  indeterminate at first; they are read only where they have been written, and start as
  zeros here. \<open>af_array\<close> is the 100-element array of \<^verbatim>\<open>main\<close>.
\<close>

definition generate_mpx ::
  "env \<Rightarrow> string option \<Rightarrow> int \<Rightarrow> 16 word \<Rightarrow> string \<Rightarrow> string \<Rightarrow> int list \<Rightarrow> int \<Rightarrow> real \<Rightarrow>
   string option \<Rightarrow> int \<Rightarrow> int \<Rightarrow> int \<Rightarrow> world \<Rightarrow> (outcome + int) \<times> world"
where
  "generate_mpx e audio_file rds pi_code ps rt af_array preemphasis_cutoff mpx control_pipe
     pty tp wait w =
     (let w = install_handlers w;
          resample_out = replicate DATA_SIZE (0 :: real);
          dev_out = replicate OUTPUT_DATA_SIZE (0 :: int);
          w = emit Ao_initialize w;
          default_driver = ao_default_driver_id_ret e;
          w = emit (Ao_default_driver_id default_driver) w;
          w = (emit (Ao_open_live default_driver 16 2 192000 AO_FMT_LITTLE (ao_open_live_ret e)) w)
                \<lparr>g_device := ao_open_live_ret e\<rparr>
      in
      if g_device w = None then (Inr 1, emit (Stderr Msg_cannot_open_sound_device) w)
      else
        let src_error = src_new_error e;
            src_state = src_new_ret e;
            w = emit (Src_new SRC_SINC_FASTEST 1 src_state) w
        in
        if src_state = None then (Inr 1, emit (Stderr (Msg_src_new_failed src_error)) w)
        else
          let src_data = \<lparr>src_ratio = 192000 / 228000, output_frames = OUTPUT_DATA_SIZE,
                            input_frames = 0, data_in = None, data_out = None\<rparr>;
              w = emit (Stdout Msg_starting) w;
              w = emit (Fm_mpx_open audio_file DATA_SIZE preemphasis_cutoff (fm_mpx_open_ret e)) w
          in
          if fm_mpx_open_ret e < 0 then (Inr 1, w)
          else
            let w = emit (Set_rds_pi pi_code) w;
                w = emit (Set_rds_ps ps) w;
                w = emit (Set_rds_rt rt) w;
                w = emit (Set_rds_pty pty) w;
                w = emit (Set_rds_tp tp) w;
                w = emit (Set_rds_ms 1) w;
                w = emit (Set_rds_ab 0) w;
                w = emit (Stdout Msg_rds_options) w;
                w = print_rds rds pi_code ps rt af_array pty w;
                (control_pipe, w) = init_control_pipe e control_pipe w
            in
            case run_loop (script e) control_pipe rds wait mpx src_state src_data
                   resample_out dev_out w of
              (Inl out, w) \<Rightarrow> (Inl out, w)
            | (Inr _, w) \<Rightarrow> (Inr 0, w))"

subsection \<open>main\<close>

text \<open>
  The locals of \<^verbatim>\<open>main\<close> with their initial values. An element of the option list is what
  one call of \<^verbatim>\<open>getopt_long\<close> returns: the option character and \<^verbatim>\<open>optarg\<close>.
\<close>

record main_vars =
  v_audio_file :: "string option"
  v_control_pipe :: "string option"
  v_rds :: int
  v_alternative_freq :: "int list"
  v_af_size :: int
  v_ps :: string
  v_rt :: string
  v_pi :: "16 word"
  v_preemphasis_cutoff :: int
  v_pty :: int
  v_tp :: int
  v_mpx :: real
  v_wait :: int

definition main_init :: main_vars where
  "main_init =
     \<lparr>v_audio_file = None, v_control_pipe = None, v_rds = 1,
      v_alternative_freq = replicate 100 0, v_af_size = 0,
      v_ps = ''mpxgen'', v_rt = ''mpxgen: FM Stereo and RDS encoder'',
      v_pi = 0x1234, v_preemphasis_cutoff = 0, v_pty = 0, v_tp = 0, v_mpx = 10, v_wait = 0\<rparr>"

text \<open>
  The body of the \<^verbatim>\<open>switch(opt)\<close>. \<open>Inl\<close> ends the process (through \<^verbatim>\<open>fatal\<close>) or leaves
  defined behaviour: case \<^verbatim>\<open>'A'\<close> writes \<^verbatim>\<open>alternative_freq[af_size]\<close> in an array of 100
  elements, casts a double to \<^verbatim>\<open>int\<close> and subtracts 875 from it.
\<close>

definition switch_opt ::
  "env \<Rightarrow> char \<Rightarrow> string \<Rightarrow> main_vars \<Rightarrow> world \<Rightarrow> (outcome \<times> world) + main_vars"
where
  "switch_opt e opt optarg v w =
     (if opt = CHR 0x00 then Inr v
      else if opt = CHR ''a'' then Inr (v\<lparr>v_audio_file := Some optarg\<rparr>)
      else if opt = CHR ''P'' then
        (if optarg = ''eu'' then Inr (v\<lparr>v_preemphasis_cutoff := 3185\<rparr>)
         else if optarg = ''us'' then Inr (v\<lparr>v_preemphasis_cutoff := 2120\<rparr>)
         else Inr (v\<lparr>v_preemphasis_cutoff := atoi optarg\<rparr>))
      else if opt = CHR ''m'' then Inr (v\<lparr>v_mpx := real_of_int (atoi optarg)\<rparr>)
      else if opt = CHR ''W'' then Inr (v\<lparr>v_wait := atoi optarg\<rparr>)
      else if opt = CHR ''R'' then Inr (v\<lparr>v_rds := atoi optarg\<rparr>)
      else if opt = CHR ''i'' then Inr (v\<lparr>v_pi := word_of_int (strtol e optarg 16)\<rparr>)
      else if opt = CHR ''s'' then Inr (v\<lparr>v_ps := optarg\<rparr>)
      else if opt = CHR ''r'' then Inr (v\<lparr>v_rt := optarg\<rparr>)
      else if opt = CHR ''p'' then Inr (v\<lparr>v_pty := atoi optarg\<rparr>)
      else if opt = CHR ''T'' then Inr (v\<lparr>v_tp := atoi optarg\<rparr>)
      else if opt = CHR ''A'' then
        (let af_size = v_af_size v + 1 in
         if 100 \<le> af_size then Inl (Undefined, w)
         else
           case float_to_int (10 * atof e optarg) of
             None \<Rightarrow> Inl (Undefined, w)
           | Some n \<Rightarrow>
               if n - 875 < - 2147483648 then Inl (Undefined, w)
               else
                 let v = v\<lparr>v_af_size := af_size,
                           v_alternative_freq := (v_alternative_freq v)[nat af_size := n - 875]\<rparr>
                 in
                 if v_alternative_freq v ! nat af_size < 1 \<or> v_alternative_freq v ! nat af_size > 204
                 then Inl (fatal Msg_af_range w)
                 else Inr v)
      else if opt = CHR ''C'' then Inr (v\<lparr>v_control_pipe := Some optarg\<rparr>)
      else if opt = CHR ''h'' then Inl (fatal Msg_help w)
      else if opt = CHR '':'' then Inl (fatal Msg_requires_argument w)
      else Inl (fatal Msg_invalid_option w))"

fun getopt_loop ::
  "env \<Rightarrow> (char \<times> string) list \<Rightarrow> main_vars \<Rightarrow> world \<Rightarrow> (outcome \<times> world) + main_vars"
where
  \<comment> \<open>\<^verbatim>\<open>while((opt = getopt_long(...)) != -1) { switch(opt) ... }\<close>\<close>
  "getopt_loop e [] v w = Inr v"
| "getopt_loop e ((opt, optarg) # rest) v w =
     (case switch_opt e opt optarg v w of
        Inl stop \<Rightarrow> Inl stop
      | Inr v' \<Rightarrow> getopt_loop e rest v' w)"

definition main :: "env \<Rightarrow> (char \<times> string) list \<Rightarrow> outcome \<times> world" where
  "main e opts =
     (case getopt_loop e opts main_init world_init of
        Inl stop \<Rightarrow> stop
      | Inr v \<Rightarrow>
          let v = v\<lparr>v_alternative_freq := (v_alternative_freq v)[0 := v_af_size v]\<rparr> in
          case generate_mpx e (v_audio_file v) (v_rds v) (v_pi v) (v_ps v) (v_rt v)
                 (v_alternative_freq v) (v_preemphasis_cutoff v) (v_mpx v) (v_control_pipe v)
                 (v_pty v) (v_tp v) (v_wait v) world_init of
            (Inl out, w) \<Rightarrow> (out, w)
          | (Inr errcode, w) \<Rightarrow> terminate errcode w)"

text \<open>
  A run of \<^verbatim>\<open>main\<close> in which a signal \<open>sig\<close> arrives while the closing call
  \<^verbatim>\<open>terminate(errcode)\<close> has executed its first \<open>k\<close> statements.
\<close>

definition main_interrupted ::
  "nat \<Rightarrow> int \<Rightarrow> env \<Rightarrow> (char \<times> string) list \<Rightarrow> outcome \<times> world"
where
  "main_interrupted k sig e opts =
     (case getopt_loop e opts main_init world_init of
        Inl stop \<Rightarrow> stop
      | Inr v \<Rightarrow>
          let v = v\<lparr>v_alternative_freq := (v_alternative_freq v)[0 := v_af_size v]\<rparr> in
          case generate_mpx e (v_audio_file v) (v_rds v) (v_pi v) (v_ps v) (v_rt v)
                 (v_alternative_freq v) (v_preemphasis_cutoff v) (v_mpx v) (v_control_pipe v)
                 (v_pty v) (v_tp v) (v_wait v) world_init of
            (Inl out, w) \<Rightarrow> (out, w)
          | (Inr errcode, w) \<Rightarrow> terminate_interrupted k errcode sig w)"

subsection \<open>Notions used to state the properties\<close>

definition add_events :: "event list \<Rightarrow> world \<Rightarrow> world" where
  "add_events evs w = w\<lparr>trace := trace w @ evs\<rparr>"

definition interleaved :: "real list \<Rightarrow> real \<Rightarrow> int list" where
  \<comment> \<open>two equal channel slots per sample, each the truncated scaled sample\<close>
  "interleaved xs volume =
     concat (map (\<lambda>x. [c_trunc (scaled x volume), c_trunc (scaled x volume)]) xs)"

definition fits_short :: "real \<Rightarrow> real \<Rightarrow> bool" where
  "fits_short volume x = (float_to_short (scaled x volume) \<noteq> None)"

fun is_loop_event :: "event \<Rightarrow> bool" where
  "is_loop_event Poll_control_pipe = True"
| "is_loop_event (Fm_mpx_get_samples rds wait r) = True"
| "is_loop_event (Src_process st sd r) = True"
| "is_loop_event (Ao_play d xs n r) = True"
| "is_loop_event (Stderr (Msg_src_process_failed r)) = True"
| "is_loop_event (Stderr Msg_could_not_play) = True"
| "is_loop_event ev = False"

definition pass_src_data :: "SRC_DATA \<Rightarrow> SRC_DATA" where
  \<comment> \<open>\<^verbatim>\<open>src_data\<close> as a pass of the run loop hands it to the converter\<close>
  "pass_src_data sd =
     sd\<lparr>input_frames := DATA_SIZE, data_in := Some Mpx_data, data_out := Some Resample_out\<rparr>"

definition pass_events ::
  "string option \<Rightarrow> int \<Rightarrow> int \<Rightarrow> real \<Rightarrow> handle option \<Rightarrow> SRC_DATA \<Rightarrow> handle option \<Rightarrow>
   iteration \<Rightarrow> event list"
where
  \<comment> \<open>the calls of a pass of the run loop in which source, converter and format stage succeed\<close>
  "pass_events control_pipe rds wait mpx src_state src_data dev it =
     (if control_pipe \<noteq> None then [Poll_control_pipe] else []) @
     [Fm_mpx_get_samples rds wait (get_samples_ret it),
      Src_process src_state (pass_src_data src_data) (src_process_ret it),
      Ao_play dev (interleaved (src_process_out it) mpx) (length (src_process_out it) * 4)
        (ao_play_ret it)]"

definition pass_ok :: "real \<Rightarrow> iteration \<Rightarrow> bool" where
  \<comment> \<open>source and converter succeed, the converted block fits the buffer and its samples a short\<close>
  "pass_ok mpx it =
     (0 \<le> get_samples_ret it \<and> src_process_ret it = 0 \<and>
      length (src_process_out it) \<le> DATA_SIZE \<and>
      list_all (fits_short mpx) (src_process_out it))"

definition teardown_events :: "handle option \<Rightarrow> handle option \<Rightarrow> event list" where
  \<comment> \<open>the calls of \<^verbatim>\<open>terminate\<close> before \<^verbatim>\<open>exit\<close>, for given values of the two globals\<close>
  "teardown_events dev st =
     [Fm_mpx_close, Close_control_pipe, Ao_close dev, Ao_shutdown, Src_delete st,
      Stdout Msg_stopped]"

definition open_events :: "env \<Rightarrow> event list" where
  \<comment> \<open>the calls of \<^verbatim>\<open>generate_mpx\<close> up to \<^verbatim>\<open>ao_open_live\<close>\<close>
  "open_events e =
     map Sigaction [0..<25] @
     [Ao_initialize, Ao_default_driver_id (ao_default_driver_id_ret e),
      Ao_open_live (ao_default_driver_id_ret e) 16 2 192000 AO_FMT_LITTLE (ao_open_live_ret e)]"

definition print_rds_events ::
  "int \<Rightarrow> 16 word \<Rightarrow> string \<Rightarrow> string \<Rightarrow> int list \<Rightarrow> int \<Rightarrow> event list"
where
  "print_rds_events rds pi_code ps rt af_array pty =
     (if rds \<noteq> 0 then
        [Stdout (Msg_rds_on rds pi_code ps pty), Stdout (Msg_rt rt)] @
        (if af_array ! 0 \<noteq> 0 then
           [Set_rds_af af_array, Stdout Msg_af_head] @
           map (\<lambda>f. Stdout (Msg_af_entry (real_of_int (af_array ! f + 875) / 10)))
             [1..<nat (af_array ! 0 + 1)] @
           [Stdout Msg_newline]
         else [])
      else [Stdout (Msg_rds_off rds)])"

definition control_events :: "env \<Rightarrow> string option \<Rightarrow> event list" where
  "control_events e control_pipe =
     (case control_pipe of
        None \<Rightarrow> []
      | Some path \<Rightarrow>
          [Open_control_pipe path (open_control_pipe_ret e),
           Stdout (if open_control_pipe_ret e = 0 then Msg_reading_control path
                   else Msg_failed_control path)])"

definition loop_control_pipe :: "env \<Rightarrow> string option \<Rightarrow> string option" where
  \<comment> \<open>\<^verbatim>\<open>control_pipe\<close> as the run loop sees it\<close>
  "loop_control_pipe e control_pipe =
     (if open_control_pipe_ret e = 0 then control_pipe else None)"

definition source_events :: "env \<Rightarrow> string option \<Rightarrow> int \<Rightarrow> event list" where
  \<comment> \<open>the calls from \<^verbatim>\<open>src_new\<close> to \<^verbatim>\<open>fm_mpx_open\<close>\<close>
  "source_events e audio_file preemphasis_cutoff =
     [Src_new SRC_SINC_FASTEST 1 (src_new_ret e), Stdout Msg_starting,
      Fm_mpx_open audio_file DATA_SIZE preemphasis_cutoff (fm_mpx_open_ret e)]"

definition startup_events ::
  "env \<Rightarrow> string option \<Rightarrow> int \<Rightarrow> 16 word \<Rightarrow> string \<Rightarrow> string \<Rightarrow> int list \<Rightarrow> int \<Rightarrow>
   string option \<Rightarrow> int \<Rightarrow> int \<Rightarrow> event list"
where
  \<comment> \<open>the calls of \<^verbatim>\<open>generate_mpx\<close> before the run loop when sink, converter and source open\<close>
  "startup_events e audio_file rds pi_code ps rt af_array preemphasis_cutoff control_pipe pty tp =
     open_events e @ source_events e audio_file preemphasis_cutoff @
     [Set_rds_pi pi_code, Set_rds_ps ps, Set_rds_rt rt, Set_rds_pty pty, Set_rds_tp tp,
      Set_rds_ms 1, Set_rds_ab 0, Stdout Msg_rds_options] @
     print_rds_events rds pi_code ps rt af_array pty @ control_events e control_pipe"

definition src_data_init :: SRC_DATA where
  "src_data_init =
     \<lparr>src_ratio = 192000 / 228000, output_frames = OUTPUT_DATA_SIZE, input_frames = 0,
      data_in = None, data_out = None\<rparr>"

definition loop_events_ok ::
  "string option \<Rightarrow> handle option \<Rightarrow> SRC_DATA \<Rightarrow> event list \<Rightarrow> bool"
where
  \<comment> \<open>what the run loop can add to the trace\<close>
  "loop_events_ok control_pipe src_state src_data evs =
     ((\<forall>ev\<in>set evs. is_loop_event ev) \<and>
      (control_pipe = None \<longrightarrow> Poll_control_pipe \<notin> set evs) \<and>
      (\<forall>st sd r. Src_process st sd r \<in> set evs \<longrightarrow>
         st = src_state \<and> sd = pass_src_data src_data))"

definition pass_plays :: "real \<Rightarrow> iteration \<Rightarrow> bool" where
  \<comment> \<open>a complete pass: the block is produced, converted, formatted and accepted by the sink\<close>
  "pass_plays mpx it = (pass_ok mpx it \<and> ao_play_ret it \<noteq> 0)"

definition pass_fatal :: "real \<Rightarrow> iteration \<Rightarrow> bool" where
  \<comment> \<open>a pass with a streaming-fatal condition: source error, conversion failure or sink write failure\<close>
  "pass_fatal mpx it =
     (get_samples_ret it < 0 \<or>
      (0 \<le> get_samples_ret it \<and> src_process_ret it \<noteq> 0) \<or>
      (pass_ok mpx it \<and> ao_play_ret it = 0))"

text \<open>
  The four owned resources. \<open>acquired\<close> names the resource a call has acquired, judged by
  the answer of the collaborator; \<open>release_call\<close> names the resource a call of \<^verbatim>\<open>terminate\<close>
  is there to release, whatever handle it is given (\<^verbatim>\<open>ao_shutdown\<close> closes the sink library,
  not a handle).
\<close>

datatype resource = Source | Sink | Converter | Control_channel

fun acquired :: "event \<Rightarrow> resource option" where
  "acquired (Ao_open_live drv bits ch rate fmt (Some h)) = Some Sink"
| "acquired (Src_new conv ch (Some h)) = Some Converter"
| "acquired (Fm_mpx_open file n cutoff r) = (if 0 \<le> r then Some Source else None)"
| "acquired (Open_control_pipe path r) = (if r = 0 then Some Control_channel else None)"
| "acquired ev = None"

fun release_call :: "event \<Rightarrow> resource option" where
  "release_call Fm_mpx_close = Some Source"
| "release_call Close_control_pipe = Some Control_channel"
| "release_call (Ao_close dev) = Some Sink"
| "release_call (Src_delete st) = Some Converter"
| "release_call ev = None"

definition acquisitions :: "event list \<Rightarrow> resource list" where
  "acquisitions tr = List.map_filter acquired tr"

definition release_calls :: "event list \<Rightarrow> resource list" where
  "release_calls tr = List.map_filter release_call tr"

subsection \<open>Concrete collaborators for the examples\<close>

text \<open>
  \<open>atof_decimal\<close> stands for \<^verbatim>\<open>atof\<close> on plain decimal notation (optional sign, digits, an
  optional fraction): it returns the decimal value written. The examples call \<^verbatim>\<open>atof\<close> on
  such strings only, and never \<^verbatim>\<open>strtol\<close>.
\<close>

fun frac_value :: "real \<Rightarrow> real \<Rightarrow> string \<Rightarrow> real" where
  "frac_value acc scale [] = acc"
| "frac_value acc scale (c # cs) =
     (if is_digit c then frac_value (acc + real_of_int (digit_value c) * scale) (scale / 10) cs
      else acc)"

definition unsigned_decimal :: "string \<Rightarrow> real" where
  "unsigned_decimal s =
     real_of_int (atoi_digits 0 (takeWhile is_digit s)) +
     (case dropWhile is_digit s of
        [] \<Rightarrow> 0
      | c # fs \<Rightarrow> if c = CHR ''.'' then frac_value 0 (1 / 10) fs else 0)"

definition atof_decimal :: "string \<Rightarrow> real" where
  "atof_decimal s =
     (case dropWhile is_space s of
        [] \<Rightarrow> 0
      | c # cs \<Rightarrow>
          if c = CHR ''-'' then - unsigned_decimal cs
          else if c = CHR ''+'' then unsigned_decimal cs
          else unsigned_decimal (c # cs))"

definition example_env :: "iteration list \<Rightarrow> env" where
  \<comment> \<open>sink, converter, source and control pipe open; the run loop is answered by the list\<close>
  "example_env its =
     \<lparr>atof = atof_decimal, strtol = (\<lambda>s b. 0), ao_default_driver_id_ret = 0,
      ao_open_live_ret = Some 1, src_new_ret = Some 2, src_new_error = 0,
      fm_mpx_open_ret = 0, open_control_pipe_ret = 0, script = its\<rparr>"

definition good_pass :: iteration where
  \<comment> \<open>a pass in which the converter emits the two samples 0 and 1/2 and the sink accepts them\<close>
  "good_pass =
     \<lparr>get_samples_ret = 0, src_process_ret = 0, src_process_out = [0, 1 / 2], ao_play_ret = 1\<rparr>"

definition end_of_stream :: iteration where
  \<comment> \<open>a pass in which the baseband source answers with an error\<close>
  "end_of_stream = good_pass\<lparr>get_samples_ret := - 1\<rparr>"

definition conversion_fails :: iteration where
  "conversion_fails = good_pass\<lparr>src_process_ret := 5\<rparr>"

definition play_fails :: iteration where
  "play_fails = good_pass\<lparr>ao_play_ret := 0\<rparr>"

section \<open>Properties\<close>

subsection \<open>Auxiliary facts\<close>

declare postprocess_loop.simps [simp del]

lemma postprocess_loop_length:
  "postprocess_loop i j inbuf outbuf n v = Some (a, b) \<Longrightarrow>
     length a = length inbuf \<and> length b = length outbuf"
proof (induction i j inbuf outbuf n v rule: postprocess_loop.induct)
  case (1 i j inbuf outbuf n v)
  show ?case
  proof (cases "i < n")
    case False
    with "1.prems" show ?thesis by (simp add: postprocess_loop.simps [of i])
  next
    case True
    with "1.prems" obtain s where
      ok: "\<not> (length inbuf \<le> i \<or> length outbuf \<le> j + 1)" and
      s: "float_to_short (inbuf ! i / 10 * 32767 * (v / 100)) = Some s" and
      rec: "postprocess_loop (i + 1) (j + 2) (inbuf[i := inbuf ! i / 10 * 32767 * (v / 100)])
              (outbuf[j + 1 := s, j := s]) n v = Some (a, b)"
      by (simp add: postprocess_loop.simps [of i] Let_def split: if_splits option.splits)
    from "1.IH" [OF True ok refl refl refl s rec] show ?thesis by simp
  qed
qed

lemma postprocess_loop_frame:
  "postprocess_loop i j inbuf outbuf n v = Some (a, b) \<Longrightarrow>
     (\<forall>k<i. a ! k = inbuf ! k) \<and> (\<forall>m<j. b ! m = outbuf ! m)"
proof (induction i j inbuf outbuf n v rule: postprocess_loop.induct)
  case (1 i j inbuf outbuf n v)
  show ?case
  proof (cases "i < n")
    case False
    with "1.prems" show ?thesis by (simp add: postprocess_loop.simps [of i])
  next
    case True
    with "1.prems" obtain s where
      ok: "\<not> (length inbuf \<le> i \<or> length outbuf \<le> j + 1)" and
      s: "float_to_short (inbuf ! i / 10 * 32767 * (v / 100)) = Some s" and
      rec: "postprocess_loop (i + 1) (j + 2) (inbuf[i := inbuf ! i / 10 * 32767 * (v / 100)])
              (outbuf[j + 1 := s, j := s]) n v = Some (a, b)"
      by (simp add: postprocess_loop.simps [of i] Let_def split: if_splits option.splits)
    from "1.IH" [OF True ok refl refl refl s rec] show ?thesis by simp
  qed
qed

lemma postprocess_loop_values:
  "postprocess_loop i j inbuf outbuf n v = Some (a, b) \<Longrightarrow> i \<le> k \<Longrightarrow> k < n \<Longrightarrow>
     a ! k = scaled (inbuf ! k) v \<and>
     b ! (j + 2 * (k - i)) = c_trunc (scaled (inbuf ! k) v) \<and>
     b ! (j + 2 * (k - i) + 1) = c_trunc (scaled (inbuf ! k) v)"
proof (induction i j inbuf outbuf n v rule: postprocess_loop.induct)
  case (1 i j inbuf outbuf n v)
  from "1.prems" have True: "i < n" by simp
  with "1.prems" obtain s where
    ok: "\<not> (length inbuf \<le> i \<or> length outbuf \<le> j + 1)" and
    s: "float_to_short (inbuf ! i / 10 * 32767 * (v / 100)) = Some s" and
    rec: "postprocess_loop (i + 1) (j + 2) (inbuf[i := inbuf ! i / 10 * 32767 * (v / 100)])
            (outbuf[j + 1 := s, j := s]) n v = Some (a, b)"
    by (simp add: postprocess_loop.simps [of i] Let_def split: if_splits option.splits)
  from s have sv: "s = c_trunc (scaled (inbuf ! i) v)"
    by (simp add: float_to_short_def scaled_def Let_def split: if_splits)
  show ?case
  proof (cases "k = i")
    case True
    from postprocess_loop_frame [OF rec] ok
    have "a ! i = scaled (inbuf ! i) v" "b ! j = s" "b ! (j + 1) = s"
      by (simp_all add: scaled_def)
    with True sv show ?thesis by simp
  next
    case False
    with "1.prems" have k: "i + 1 \<le> k" by simp
    have nk: "inbuf[i := inbuf ! i / 10 * 32767 * (v / 100)] ! k = inbuf ! k"
      using False by simp
    have eq: "j + 2 + 2 * (k - (i + 1)) = j + 2 * (k - i)"
      using k by simp
    from "1.IH" [OF True ok refl refl refl s rec k "1.prems"(3)]
    show ?thesis unfolding nk eq .
  qed
qed

lemma postprocess_loop_total:
  "n \<le> length inbuf \<Longrightarrow> j + 2 * (n - i) \<le> length outbuf \<Longrightarrow>
   (\<forall>k. i \<le> k \<and> k < n \<longrightarrow> float_to_short (scaled (inbuf ! k) v) \<noteq> None) \<Longrightarrow>
   \<exists>r. postprocess_loop i j inbuf outbuf n v = Some r"
proof (induction i j inbuf outbuf n v rule: postprocess_loop.induct)
  case (1 i j inbuf outbuf n v)
  show ?case
  proof (cases "i < n")
    case False
    then show ?thesis by (simp add: postprocess_loop.simps [of i])
  next
    case True
    with "1.prems" have ok: "\<not> (length inbuf \<le> i \<or> length outbuf \<le> j + 1)" by auto
    from "1.prems"(3) True obtain s where
      s: "float_to_short (inbuf ! i / 10 * 32767 * (v / 100)) = Some s"
      by (auto simp: scaled_def)
    have "\<exists>r. postprocess_loop (i + 1) (j + 2) (inbuf[i := inbuf ! i / 10 * 32767 * (v / 100)])
            (outbuf[j + 1 := s, j := s]) n v = Some r"
    proof (rule "1.IH" [OF True ok refl refl refl s])
      show "n \<le> length (inbuf[i := inbuf ! i / 10 * 32767 * (v / 100)])"
        using "1.prems"(1) by simp
      show "j + 2 + 2 * (n - (i + 1)) \<le> length (outbuf[j + 1 := s, j := s])"
        using "1.prems"(2) True by simp
      show "\<forall>k. i + 1 \<le> k \<and> k < n \<longrightarrow>
              float_to_short (scaled (inbuf[i := inbuf ! i / 10 * 32767 * (v / 100)] ! k) v) \<noteq> None"
        using "1.prems"(3) by simp
    qed
    with True ok s show ?thesis
      by (simp add: postprocess_loop.simps [of i] Let_def)
  qed
qed


lemma add_events_simps [simp]:
  "trace (add_events evs w) = trace w @ evs"
  "g_device (add_events evs w) = g_device w"
  "g_src_state (add_events evs w) = g_src_state w"
  "add_events evs (add_events evs' w) = add_events (evs' @ evs) w"
  by (simp_all add: add_events_def)

lemma emit_add_events: "emit ev w = add_events [ev] w"
  by (simp add: emit_def add_events_def)

lemma add_events_Nil [simp]: "add_events [] w = w"
  by (simp add: add_events_def)

lemma add_events_device [simp]:
  "add_events evs (w\<lparr>g_device := d\<rparr>) = (add_events evs w)\<lparr>g_device := d\<rparr>"
  by (simp add: add_events_def)

lemma interleaved_length [simp]: "length (interleaved xs v) = 2 * length xs"
  by (induction xs) (simp_all add: interleaved_def)

lemma interleaved_nth:
  "m < 2 * length xs \<Longrightarrow> interleaved xs v ! m = c_trunc (scaled (xs ! (m div 2)) v)"
proof (induction xs arbitrary: m)
  case Nil
  then show ?case by simp
next
  case (Cons x xs)
  have unfold: "interleaved (x # xs) v =
      c_trunc (scaled x v) # c_trunc (scaled x v) # interleaved xs v"
    by (simp add: interleaved_def)
  consider "m = 0" | "m = 1" | "2 \<le> m" by linarith
  then show ?case
  proof cases
    case 1
    then show ?thesis by (simp add: unfold)
  next
    case 2
    then show ?thesis by (simp add: unfold)
  next
    case 3
    then obtain m' where m': "m = Suc (Suc m')" by (metis add_2_eq_Suc le_Suc_ex)
    with Cons.prems have "m' < 2 * length xs" by simp
    from Cons.IH [OF this] m' show ?thesis by (simp add: unfold)
  qed
qed

lemma postprocess_pass:
  assumes ro: "length ro = DATA_SIZE" and dout: "length dout = OUTPUT_DATA_SIZE"
    and n: "length out \<le> DATA_SIZE" and fits: "\<forall>x\<in>set out. fits_short v x"
  shows "\<exists>ro' dout'. postprocess (out @ drop (length out) ro) dout (length out) v = Some (ro', dout')
           \<and> length ro' = DATA_SIZE \<and> length dout' = OUTPUT_DATA_SIZE
           \<and> take (2 * length out) dout' = interleaved out v"
proof -
  let ?inbuf = "out @ drop (length out) ro"
  have len: "length ?inbuf = DATA_SIZE" using ro n by simp
  have nth: "\<And>k. k < length out \<Longrightarrow> ?inbuf ! k = out ! k" by (simp add: nth_append)
  have "\<exists>r. postprocess_loop 0 0 ?inbuf dout (length out) v = Some r"
  proof (rule postprocess_loop_total)
    show "length out \<le> length ?inbuf" using len n by simp
    show "0 + 2 * (length out - 0) \<le> length dout"
      using dout n by (simp add: DATA_SIZE_def OUTPUT_DATA_SIZE_def)
    show "\<forall>k. 0 \<le> k \<and> k < length out \<longrightarrow> float_to_short (scaled (?inbuf ! k) v) \<noteq> None"
      using fits nth by (simp add: fits_short_def)
  qed
  then obtain ro' dout' where r: "postprocess_loop 0 0 ?inbuf dout (length out) v = Some (ro', dout')"
    by auto
  from postprocess_loop_length [OF r] len dout
  have l: "length ro' = DATA_SIZE" "length dout' = OUTPUT_DATA_SIZE" by simp_all
  have "take (2 * length out) dout' = interleaved out v"
  proof (rule nth_equalityI)
    show "length (take (2 * length out) dout') = length (interleaved out v)"
      using l n by (simp add: DATA_SIZE_def OUTPUT_DATA_SIZE_def)
  next
    fix m assume "m < length (take (2 * length out) dout')"
    then have m: "m < 2 * length out" by simp
    then have k: "m div 2 < length out" by simp
    from postprocess_loop_values [OF r _ k] nth [OF k]
    have v: "dout' ! (2 * (m div 2)) = c_trunc (scaled (out ! (m div 2)) v)"
            "dout' ! (2 * (m div 2) + 1) = c_trunc (scaled (out ! (m div 2)) v)"
      by simp_all
    have "m = 2 * (m div 2) \<or> m = 2 * (m div 2) + 1" by presburger
    with v have "dout' ! m = c_trunc (scaled (out ! (m div 2)) v)" by metis
    with m show "take (2 * length out) dout' ! m = interleaved out v ! m"
      by (simp add: interleaved_nth)
  qed
  with r l show ?thesis by (simp add: postprocess_def)
qed

lemma pass_src_data_idem [simp]: "pass_src_data (pass_src_data sd) = pass_src_data sd"
  by (simp add: pass_src_data_def)

lemma run_loop_pass:
  assumes ok: "pass_ok mpx it"
    and ro: "length ro = DATA_SIZE" and dout: "length dout = OUTPUT_DATA_SIZE"
  shows "\<exists>ro' dout'. length ro' = DATA_SIZE \<and> length dout' = OUTPUT_DATA_SIZE \<and>
           run_loop (it # its) cp rds wait mpx st sd ro dout w =
             (if ao_play_ret it = 0
              then (Inr (), add_events (pass_events cp rds wait mpx st sd (g_device w) it @
                                          [Stderr Msg_could_not_play]) w)
              else run_loop its cp rds wait mpx st (pass_src_data sd) ro' dout'
                     (add_events (pass_events cp rds wait mpx st sd (g_device w) it) w))"
proof -
  from ok have g: "\<not> get_samples_ret it < 0" and s: "src_process_ret it = 0"
    and n: "length (src_process_out it) \<le> DATA_SIZE"
    and fits: "\<forall>x\<in>set (src_process_out it). fits_short mpx x"
    by (simp_all add: pass_ok_def list_all_iff)
  from postprocess_pass [OF ro dout n fits] obtain ro' dout' where
    pp: "postprocess (src_process_out it @ drop (length (src_process_out it)) ro) dout
           (length (src_process_out it)) mpx = Some (ro', dout')"
    and l: "length ro' = DATA_SIZE" "length dout' = OUTPUT_DATA_SIZE"
    and t: "take (2 * length (src_process_out it)) dout' = interleaved (src_process_out it) mpx"
    by blast
  have "run_loop (it # its) cp rds wait mpx st sd ro dout w =
          (if ao_play_ret it = 0
           then (Inr (), add_events (pass_events cp rds wait mpx st sd (g_device w) it @
                                       [Stderr Msg_could_not_play]) w)
           else run_loop its cp rds wait mpx st (pass_src_data sd) ro' dout'
                  (add_events (pass_events cp rds wait mpx st sd (g_device w) it) w))"
    using g s n pp t
    by (simp add: Let_def emit_add_events pass_events_def pass_src_data_def)
  with l show ?thesis by blast
qed

lemma loop_events_ok_Nil [simp]: "loop_events_ok cp st sd []"
  by (simp add: loop_events_ok_def)

lemma loop_events_ok_append [simp]:
  "loop_events_ok cp st sd (xs @ ys) \<longleftrightarrow> loop_events_ok cp st sd xs \<and> loop_events_ok cp st sd ys"
  unfolding loop_events_ok_def set_append by blast

lemma loop_events_ok_Cons2 [simp]:
  "loop_events_ok cp st sd (x # y # ys) \<longleftrightarrow>
     loop_events_ok cp st sd [x] \<and> loop_events_ok cp st sd (y # ys)"
  using loop_events_ok_append [of cp st sd "[x]" "y # ys"] by simp

lemma loop_events_ok_pass_src_data [simp]:
  "loop_events_ok cp st (pass_src_data sd) evs = loop_events_ok cp st sd evs"
  by (simp add: loop_events_ok_def)

lemma loop_events_ok_single [simp]:
  "loop_events_ok cp st sd [Poll_control_pipe] \<longleftrightarrow> cp \<noteq> None"
  "loop_events_ok cp st sd [Fm_mpx_get_samples rds wait g]"
  "loop_events_ok cp st sd [Src_process st (pass_src_data sd) r]"
  "loop_events_ok cp st sd [Ao_play d xs n p]"
  "loop_events_ok cp st sd [Stderr (Msg_src_process_failed r)]"
  "loop_events_ok cp st sd [Stderr Msg_could_not_play]"
  by (auto simp: loop_events_ok_def)

lemma run_loop_adds:
  "\<exists>evs. snd (run_loop its cp rds wait mpx st sd ro dout w) = add_events evs w \<and>
         loop_events_ok cp st sd evs"
proof (induction its arbitrary: sd ro dout w)
  case Nil
  show ?case by (rule exI [of _ "[]"]) simp
next
  case (Cons it its)
  define poll where "poll = (if cp \<noteq> None then [Poll_control_pipe] else [])"
  define e1 where "e1 = poll @ [Fm_mpx_get_samples rds wait (get_samples_ret it)]"
  define e2 where "e2 = e1 @ [Src_process st (pass_src_data sd) (src_process_ret it)]"
  have le1: "loop_events_ok cp st sd e1"
    by (simp add: e1_def poll_def)
  then have le: "loop_events_ok cp st sd e2"
    by (simp add: e2_def)
  show ?case
  proof (cases "get_samples_ret it < 0")
    case True
    then have "snd (run_loop (it # its) cp rds wait mpx st sd ro dout w) = add_events e1 w"
      by (simp add: Let_def emit_add_events e1_def poll_def)
    with le1 show ?thesis by blast
  next
    case g: False
    show ?thesis
    proof (cases "src_process_ret it \<noteq> 0")
      case True
      with g have "snd (run_loop (it # its) cp rds wait mpx st sd ro dout w) =
          add_events (e2 @ [Stderr (Msg_src_process_failed (src_process_ret it))]) w"
        by (simp add: Let_def emit_add_events e2_def e1_def poll_def pass_src_data_def)
      moreover have "loop_events_ok cp st sd
          (e2 @ [Stderr (Msg_src_process_failed (src_process_ret it))])"
        using le by simp
      ultimately show ?thesis by blast
    next
      case s: False
      show ?thesis
      proof (cases "capacity Resample_out < length (src_process_out it)")
        case True
        with g s have "snd (run_loop (it # its) cp rds wait mpx st sd ro dout w) = add_events e2 w"
          by (simp add: Let_def emit_add_events e2_def e1_def poll_def pass_src_data_def)
        with le show ?thesis by blast
      next
        case c: False
        show ?thesis
        proof (cases "postprocess (src_process_out it @ drop (length (src_process_out it)) ro) dout
                        (length (src_process_out it)) mpx")
          case None
          with g s c have "snd (run_loop (it # its) cp rds wait mpx st sd ro dout w) = add_events e2 w"
            by (simp add: Let_def emit_add_events e2_def e1_def poll_def pass_src_data_def)
          with le show ?thesis by blast
        next
          case (Some r)
          obtain ro' dout' where r: "r = (ro', dout')" by (cases r)
          define e3 where "e3 = e2 @ [Ao_play (g_device w)
              (take (2 * length (src_process_out it)) dout') (length (src_process_out it) * 4)
              (ao_play_ret it)]"
          have le3: "loop_events_ok cp st sd e3"
            using le by (simp add: e3_def)
          show ?thesis
          proof (cases "ao_play_ret it = 0")
            case True
            with g s c Some r
            have "snd (run_loop (it # its) cp rds wait mpx st sd ro dout w) =
                add_events (e3 @ [Stderr Msg_could_not_play]) w"
              by (simp add: Let_def emit_add_events e3_def e2_def e1_def poll_def pass_src_data_def)
            moreover have "loop_events_ok cp st sd (e3 @ [Stderr Msg_could_not_play])"
              using le3 by simp
            ultimately show ?thesis by blast
          next
            case False
            with g s c Some r
            have eq: "run_loop (it # its) cp rds wait mpx st sd ro dout w =
                run_loop its cp rds wait mpx st (pass_src_data sd) ro' dout' (add_events e3 w)"
              by (simp add: Let_def emit_add_events e3_def e2_def e1_def poll_def pass_src_data_def)
            from Cons.IH [of "pass_src_data sd" ro' dout' "add_events e3 w"]
            obtain evs where
              evs: "snd (run_loop its cp rds wait mpx st (pass_src_data sd) ro' dout' (add_events e3 w)) =
                      add_events evs (add_events e3 w)"
                "loop_events_ok cp st sd evs"
              by auto
            have "snd (run_loop (it # its) cp rds wait mpx st sd ro dout w) = add_events (e3 @ evs) w"
              using eq evs(1) by simp
            moreover have "loop_events_ok cp st sd (e3 @ evs)"
              using le3 evs(2) by simp
            ultimately show ?thesis by blast
          qed
        qed
      qed
    qed
  qed
qed

lemma pass_events_ok [simp]:
  "loop_events_ok cp st sd (pass_events cp rds wait mpx st sd dev it)"
  by (cases cp) (simp_all add: pass_events_def)

lemma foldl_emit:
  "foldl (\<lambda>w' x. emit (f x) w') w xs = add_events (map f xs) w"
  by (induction xs arbitrary: w) (simp_all add: emit_add_events)

lemma foldl_add_events:
  "foldl (\<lambda>w' x. add_events [f x] w') w xs = add_events (map f xs) w"
  by (induction xs arbitrary: w) simp_all

lemma install_handlers_events: "install_handlers w = add_events (map Sigaction [0..<25]) w"
  unfolding install_handlers_def by (rule foldl_emit)

lemma print_rds_adds:
  "print_rds rds pi_code ps rt af_array pty w =
     add_events (print_rds_events rds pi_code ps rt af_array pty) w"
  by (simp add: print_rds_def print_rds_events_def Let_def emit_add_events foldl_add_events)

lemma init_control_pipe_adds:
  "init_control_pipe e cp w = (loop_control_pipe e cp, add_events (control_events e cp) w)"
  by (simp add: init_control_pipe_def loop_control_pipe_def control_events_def Let_def
      emit_add_events split: option.split)

lemma terminate_adds:
  "terminate num w =
     (Exited num, add_events (teardown_events (g_device w) (g_src_state w) @ [Exit num]) w)"
  by (simp add: terminate_def c_exit_def run_stmts_def terminate_stmts_def teardown_events_def
      emit_add_events)

lemma fatal_adds: "fatal msg w = (Exited 1, add_events [Stderr msg, Exit 1] w)"
  by (simp add: fatal_def c_exit_def emit_add_events)

lemma generate_mpx_sink_fails:
  assumes "ao_open_live_ret e = None"
  shows "generate_mpx e audio_file rds pi_code ps rt af_array preemph mpx cp pty tp wait w =
     (Inr 1, (add_events (open_events e @ [Stderr Msg_cannot_open_sound_device]) w)
               \<lparr>g_device := None\<rparr>)"
  using assms
  by (simp add: generate_mpx_def Let_def install_handlers_events emit_add_events open_events_def)

lemma generate_mpx_converter_fails:
  assumes "ao_open_live_ret e = Some d" "src_new_ret e = None"
  shows "generate_mpx e audio_file rds pi_code ps rt af_array preemph mpx cp pty tp wait w =
     (Inr 1, (add_events (open_events e @
                [Src_new SRC_SINC_FASTEST 1 None, Stderr (Msg_src_new_failed (src_new_error e))]) w)
               \<lparr>g_device := ao_open_live_ret e\<rparr>)"
  using assms
  by (simp add: generate_mpx_def Let_def install_handlers_events emit_add_events open_events_def)

lemma generate_mpx_source_fails:
  assumes "ao_open_live_ret e = Some d" "src_new_ret e = Some s" "fm_mpx_open_ret e < 0"
  shows "generate_mpx e audio_file rds pi_code ps rt af_array preemph mpx cp pty tp wait w =
     (Inr 1, (add_events (open_events e @ source_events e audio_file preemph) w)
               \<lparr>g_device := ao_open_live_ret e\<rparr>)"
  using assms
  by (simp add: generate_mpx_def Let_def install_handlers_events emit_add_events open_events_def
      source_events_def)

lemma generate_mpx_started:
  assumes "ao_open_live_ret e = Some d" "src_new_ret e = Some s" "0 \<le> fm_mpx_open_ret e"
  shows "generate_mpx e audio_file rds pi_code ps rt af_array preemph mpx cp pty tp wait w =
     (case run_loop (script e) (loop_control_pipe e cp) rds wait mpx (src_new_ret e) src_data_init
             (replicate DATA_SIZE 0) (replicate OUTPUT_DATA_SIZE 0)
             ((add_events (startup_events e audio_file rds pi_code ps rt af_array preemph cp pty tp) w)
                \<lparr>g_device := ao_open_live_ret e\<rparr>) of
        (Inl out, w') \<Rightarrow> (Inl out, w')
      | (Inr u, w') \<Rightarrow> (Inr 0, w'))"
  using assms
  by (simp add: generate_mpx_def Let_def install_handlers_events emit_add_events open_events_def
      source_events_def startup_events_def print_rds_adds init_control_pipe_adds src_data_init_def)

lemma switch_opt_stops:
  assumes "switch_opt e opt optarg v w = Inl (out, w')"
  shows "(out = Undefined \<and> w' = w) \<or> (\<exists>msg. out = Exited 1 \<and> w' = add_events [Stderr msg, Exit 1] w)"
  using assms
  by (auto simp: switch_opt_def Let_def fatal_adds split: if_splits option.splits)

lemma getopt_loop_stops:
  assumes "getopt_loop e opts v w = Inl (out, w')"
  shows "(out = Undefined \<and> w' = w) \<or> (\<exists>msg. out = Exited 1 \<and> w' = add_events [Stderr msg, Exit 1] w)"
  using assms
proof (induction opts arbitrary: v)
  case Nil
  then show ?case by simp
next
  case (Cons o1 opts)
  obtain opt optarg where o1: "o1 = (opt, optarg)" by (cases o1)
  show ?case
  proof (cases "switch_opt e opt optarg v w")
    case (Inl stop)
    with Cons.prems o1 have "switch_opt e opt optarg v w = Inl (out, w')" by simp
    then show ?thesis by (rule switch_opt_stops)
  next
    case (Inr v')
    with Cons.prems o1 have "getopt_loop e opts v' w = Inl (out, w')" by simp
    then show ?thesis by (rule Cons.IH)
  qed
qed


lemma main_parsed:
  assumes "getopt_loop e opts main_init world_init = Inr v"
  shows "main e opts =
     (case generate_mpx e (v_audio_file v) (v_rds v) (v_pi v) (v_ps v) (v_rt v)
             ((v_alternative_freq v)[0 := v_af_size v]) (v_preemphasis_cutoff v) (v_mpx v)
             (v_control_pipe v) (v_pty v) (v_tp v) (v_wait v) world_init of
        (Inl out, w) \<Rightarrow> (out, w)
      | (Inr errcode, w) \<Rightarrow> terminate errcode w)"
  using assms by (simp add: main_def Let_def)

lemma world_init_events:
  "(add_events evs world_init)\<lparr>g_device := d\<rparr> = \<lparr>g_device = d, g_src_state = None, trace = evs\<rparr>"
  by (simp add: add_events_def world_init_def)

lemma add_events_world:
  "add_events evs \<lparr>g_device = d, g_src_state = s, trace = tr\<rparr> =
     \<lparr>g_device = d, g_src_state = s, trace = tr @ evs\<rparr>"
  by (simp add: add_events_def)

lemma main_sink_fails:
  assumes "getopt_loop e opts main_init world_init = Inr v" and "ao_open_live_ret e = None"
  shows "main e opts =
     (Exited 1, \<lparr>g_device = None, g_src_state = None,
                 trace = open_events e @ [Stderr Msg_cannot_open_sound_device] @
                         teardown_events None None @ [Exit 1]\<rparr>)"
  by (simp add: main_parsed [OF assms(1)] generate_mpx_sink_fails [OF assms(2)]
      terminate_adds world_init_events add_events_world)

lemma main_converter_fails:
  assumes "getopt_loop e opts main_init world_init = Inr v"
    and "ao_open_live_ret e = Some d" and "src_new_ret e = None"
  shows "main e opts =
     (Exited 1, \<lparr>g_device = Some d, g_src_state = None,
                 trace = open_events e @
                         [Src_new SRC_SINC_FASTEST 1 None, Stderr (Msg_src_new_failed (src_new_error e))] @
                         teardown_events (Some d) None @ [Exit 1]\<rparr>)"
  by (simp add: main_parsed [OF assms(1)] generate_mpx_converter_fails [OF assms(2,3)]
      terminate_adds world_init_events add_events_world assms(2))

lemma main_source_fails:
  assumes "getopt_loop e opts main_init world_init = Inr v"
    and "ao_open_live_ret e = Some d" and "src_new_ret e = Some s" and "fm_mpx_open_ret e < 0"
  shows "main e opts =
     (Exited 1, \<lparr>g_device = Some d, g_src_state = None,
                 trace = open_events e @
                         source_events e (v_audio_file v) (v_preemphasis_cutoff v) @
                         teardown_events (Some d) None @ [Exit 1]\<rparr>)"
  by (simp add: main_parsed [OF assms(1)] generate_mpx_source_fails [OF assms(2,3,4)]
      terminate_adds world_init_events add_events_world assms(2))

text \<open>The run of \<^verbatim>\<open>main\<close> once sink, converter and source are open.\<close>

lemma main_started:
  assumes parse: "getopt_loop e opts main_init world_init = Inr v"
    and started: "ao_open_live_ret e = Some d" "src_new_ret e = Some s" "0 \<le> fm_mpx_open_ret e"
  defines "w0 \<equiv> \<lparr>g_device = Some d, g_src_state = None,
                  trace = startup_events e (v_audio_file v) (v_rds v) (v_pi v) (v_ps v) (v_rt v)
                            ((v_alternative_freq v)[0 := v_af_size v]) (v_preemphasis_cutoff v)
                            (v_control_pipe v) (v_pty v) (v_tp v)\<rparr>"
    and "loop \<equiv> run_loop (script e) (loop_control_pipe e (v_control_pipe v)) (v_rds v) (v_wait v)
                  (v_mpx v) (Some s) src_data_init (replicate DATA_SIZE 0)
                  (replicate OUTPUT_DATA_SIZE 0)"
  shows "main e opts =
     (case loop w0 of
        (Inl out, w) \<Rightarrow> (out, w)
      | (Inr u, w) \<Rightarrow> (Exited 0, add_events (teardown_events (Some d) None @ [Exit 0]) w))"
proof -
  obtain r w where lw: "loop w0 = (r, w)" by (cases "loop w0")
  from run_loop_adds [of "script e" "loop_control_pipe e (v_control_pipe v)" "v_rds v" "v_wait v"
      "v_mpx v" "Some s" src_data_init "replicate DATA_SIZE 0" "replicate OUTPUT_DATA_SIZE 0" w0]
  obtain evs where "w = add_events evs w0"
    using lw by (auto simp: loop_def)
  then have g: "g_device w = Some d" "g_src_state w = None"
    by (simp_all add: w0_def)
  show ?thesis
    using lw g
    by (cases r)
      (simp_all add: main_parsed [OF parse] generate_mpx_started [OF started] started
        world_init_events w0_def loop_def terminate_adds)
qed

lemma main_started_fst:
  assumes "getopt_loop e opts main_init world_init = Inr v"
    and "ao_open_live_ret e = Some d" "src_new_ret e = Some s" "0 \<le> fm_mpx_open_ret e"
  shows "fst (main e opts) =
     (case fst (run_loop (script e) (loop_control_pipe e (v_control_pipe v)) (v_rds v) (v_wait v)
                  (v_mpx v) (Some s) src_data_init (replicate DATA_SIZE 0)
                  (replicate OUTPUT_DATA_SIZE 0)
                  \<lparr>g_device = Some d, g_src_state = None,
                   trace = startup_events e (v_audio_file v) (v_rds v) (v_pi v) (v_ps v) (v_rt v)
                             ((v_alternative_freq v)[0 := v_af_size v]) (v_preemphasis_cutoff v)
                             (v_control_pipe v) (v_pty v) (v_tp v)\<rparr>) of
        Inl out \<Rightarrow> out
      | Inr u \<Rightarrow> Exited 0)"
  unfolding main_started [OF assms]
  by (simp split: prod.split sum.split)

lemma startup_cases:
  obtains (sink) "ao_open_live_ret e = None"
  | (converter) d where "ao_open_live_ret e = Some d" "src_new_ret e = None"
  | (source) d s where "ao_open_live_ret e = Some d" "src_new_ret e = Some s" "fm_mpx_open_ret e < 0"
  | (started) d s where "ao_open_live_ret e = Some d" "src_new_ret e = Some s" "0 \<le> fm_mpx_open_ret e"
  by (cases "ao_open_live_ret e"; cases "src_new_ret e"; cases "fm_mpx_open_ret e < 0") auto

lemma main_started_trace:
  assumes parse: "getopt_loop e opts main_init world_init = Inr v"
    and started: "ao_open_live_ret e = Some d" "src_new_ret e = Some s" "0 \<le> fm_mpx_open_ret e"
  obtains evs tail where
    "loop_events_ok (loop_control_pipe e (v_control_pipe v)) (Some s) src_data_init evs"
    "trace (snd (main e opts)) =
       startup_events e (v_audio_file v) (v_rds v) (v_pi v) (v_ps v) (v_rt v)
         ((v_alternative_freq v)[0 := v_af_size v]) (v_preemphasis_cutoff v)
         (v_control_pipe v) (v_pty v) (v_tp v) @ evs @ tail"
    "tail = [] \<or> tail = teardown_events (Some d) None @ [Exit 0]"
    "\<And>code. fst (main e opts) = Exited code \<Longrightarrow> tail = teardown_events (Some d) None @ [Exit 0]"
proof -
  define w0 where "w0 = \<lparr>g_device = Some d, g_src_state = None,
      trace = startup_events e (v_audio_file v) (v_rds v) (v_pi v) (v_ps v) (v_rt v)
                ((v_alternative_freq v)[0 := v_af_size v]) (v_preemphasis_cutoff v)
                (v_control_pipe v) (v_pty v) (v_tp v)\<rparr>"
  define res where "res = run_loop (script e) (loop_control_pipe e (v_control_pipe v)) (v_rds v)
      (v_wait v) (v_mpx v) (Some s) src_data_init (replicate DATA_SIZE 0)
      (replicate OUTPUT_DATA_SIZE 0) w0"
  have m: "main e opts =
     (case res of
        (Inl out, w) \<Rightarrow> (out, w)
      | (Inr u, w) \<Rightarrow> (Exited 0, add_events (teardown_events (Some d) None @ [Exit 0]) w))"
    unfolding res_def w0_def by (rule main_started [OF parse started])
  from run_loop_adds [of "script e" "loop_control_pipe e (v_control_pipe v)" "v_rds v" "v_wait v"
      "v_mpx v" "Some s" src_data_init "replicate DATA_SIZE 0" "replicate OUTPUT_DATA_SIZE 0" w0]
  obtain evs where evs: "snd res = add_events evs w0"
    "loop_events_ok (loop_control_pipe e (v_control_pipe v)) (Some s) src_data_init evs"
    by (auto simp: res_def)
  obtain r w where rw: "res = (r, w)" by (cases res)
  with evs have w: "w = add_events evs w0" by simp
  show ?thesis
  proof (cases r)
    case (Inl out)
    have "out \<noteq> Exited code" for code
    proof -
      have "fst (run_loop its cp rds wait mpx st sd ro dout w') \<noteq> Inl (Exited code)"
        for its cp rds wait mpx st sd ro dout w'
        by (induction its arbitrary: sd ro dout w')
          (auto simp: Let_def split: option.splits prod.splits)
      from this [of "script e" "loop_control_pipe e (v_control_pipe v)" "v_rds v" "v_wait v"
          "v_mpx v" "Some s" src_data_init "replicate DATA_SIZE 0" "replicate OUTPUT_DATA_SIZE 0" w0]
      show ?thesis using rw Inl by (simp add: res_def)
    qed
    with m rw Inl w show ?thesis
      by (intro that [of evs "[]"]) (simp_all add: evs w0_def)
  next
    case (Inr u)
    with m rw w show ?thesis
      by (intro that [of evs "teardown_events (Some d) None @ [Exit 0]"]) (simp_all add: evs w0_def)
  qed
qed

lemma run_loop_reaches_fatal:
  assumes "list_all (pass_plays mpx) goods" and "pass_fatal mpx bad"
    and "length ro = DATA_SIZE" and "length dout = OUTPUT_DATA_SIZE"
  shows "fst (run_loop (goods @ bad # rest) cp rds wait mpx st sd ro dout w) = Inr ()"
  using assms
proof (induction goods arbitrary: sd ro dout w)
  case Nil
  from Nil.prems(2) consider
    (src) "get_samples_ret bad < 0"
    | (conv) "0 \<le> get_samples_ret bad" "src_process_ret bad \<noteq> 0"
    | (play) "pass_ok mpx bad" "ao_play_ret bad = 0"
    by (auto simp: pass_fatal_def)
  then show ?case
  proof cases
    case src
    then show ?thesis by (simp add: Let_def)
  next
    case conv
    then show ?thesis by (simp add: Let_def)
  next
    case play
    from run_loop_pass [OF play(1) Nil.prems(3,4), of rest cp rds wait st sd w] play(2)
    show ?thesis by auto
  qed
next
  case (Cons it goods)
  from Cons.prems(1) have "pass_plays mpx it" and rest: "list_all (pass_plays mpx) goods"
    by simp_all
  then have ok: "pass_ok mpx it" and p: "ao_play_ret it \<noteq> 0"
    by (simp_all add: pass_plays_def)
  from run_loop_pass [OF ok Cons.prems(3,4), of "goods @ bad # rest" cp rds wait st sd w] p
  obtain ro' dout' where l: "length ro' = DATA_SIZE" "length dout' = OUTPUT_DATA_SIZE"
    and eq: "run_loop (it # goods @ bad # rest) cp rds wait mpx st sd ro dout w =
             run_loop (goods @ bad # rest) cp rds wait mpx st (pass_src_data sd) ro' dout'
               (add_events (pass_events cp rds wait mpx st sd (g_device w) it) w)"
    by auto
  from Cons.IH [OF rest Cons.prems(2) l] eq show ?case by simp
qed

subsection \<open>The format stage\<close>

lemma postprocess_values:
  assumes "postprocess inbuf outbuf n g = Some (a, b)" and "i < n"
  shows "a ! i = scaled (inbuf ! i) g \<and> b ! (2 * i) = c_trunc (scaled (inbuf ! i) g) \<and>
         b ! (2 * i + 1) = c_trunc (scaled (inbuf ! i) g)"
  using postprocess_loop_values [of 0 0 inbuf outbuf n g a b i] assms
  by (simp add: postprocess_def)

lemma postprocess_total:
  assumes "n \<le> length inbuf" and "2 * n \<le> length outbuf"
    and "list_all (fits_short g) (take n inbuf)"
  shows "\<exists>a b. postprocess inbuf outbuf n g = Some (a, b)"
proof -
  have "\<forall>k. 0 \<le> k \<and> k < n \<longrightarrow> float_to_short (scaled (inbuf ! k) g) \<noteq> None"
  proof (intro allI impI)
    fix k assume "0 \<le> k \<and> k < n"
    then have "k < length (take n inbuf)" using assms(1) by simp
    with assms(3) have "fits_short g (take n inbuf ! k)" by (simp add: list_all_length)
    with \<open>0 \<le> k \<and> k < n\<close> show "float_to_short (scaled (inbuf ! k) g) \<noteq> None"
      by (simp add: fits_short_def)
  qed
  with postprocess_loop_total [of n inbuf 0 0 outbuf g] assms(1,2)
  show ?thesis by (simp add: postprocess_def)
qed

lemma c_trunc_zero [simp]: "c_trunc 0 = 0"
  by (simp add: c_trunc_def)

lemma scaled_zero [simp]: "scaled 0 g = 0"
  by (simp add: scaled_def)

lemma scaled_double: "scaled x (2 * g) = 2 * scaled x g"
  by (simp add: scaled_def)

text \<open>
  C7. For every block of \<open>n\<close> converted samples whose scaled values fit a \<^verbatim>\<open>short\<close>, and
  every gain \<open>g\<close> (so in particular every \<open>g \<ge> 0\<close>), \<^verbatim>\<open>postprocess\<close> returns; both interleaved
  slots \<open>2i\<close> and \<open>2i+1\<close> of the output hold the same value, the truncation of the scaled
  sample \<open>x / 10 * 32767 * (g / 100)\<close> it leaves in the input buffer; an input sample 0
  gives 0 in both slots; and the scaled sample is linear in the gain: at gain \<open>2g\<close> it is
  twice the one at gain \<open>g\<close>.
\<close>

theorem format_stage_duplicates_and_scales:
  assumes "n \<le> length inbuf" and "2 * n \<le> length outbuf"
    and "list_all (fits_short g) (take n inbuf)"
  shows "\<exists>inbuf' outbuf'. postprocess inbuf outbuf n g = Some (inbuf', outbuf') \<and>
           (\<forall>i<n. outbuf' ! (2 * i) = outbuf' ! (2 * i + 1)
                 \<and> outbuf' ! (2 * i) = c_trunc (inbuf' ! i)
                 \<and> inbuf' ! i = inbuf ! i / 10 * 32767 * (g / 100)
                 \<and> (inbuf ! i = 0 \<longrightarrow> outbuf' ! (2 * i) = 0 \<and> outbuf' ! (2 * i + 1) = 0)
                 \<and> (\<forall>a b. postprocess inbuf outbuf n (2 * g) = Some (a, b)
                        \<longrightarrow> a ! i = 2 * inbuf' ! i))"
proof -
  from postprocess_total [OF assms] obtain a b where
    r: "postprocess inbuf outbuf n g = Some (a, b)" by blast
  have "outbuf' ! (2 * i) = outbuf' ! (2 * i + 1)
        \<and> outbuf' ! (2 * i) = c_trunc (inbuf' ! i)
        \<and> inbuf' ! i = inbuf ! i / 10 * 32767 * (g / 100)
        \<and> (inbuf ! i = 0 \<longrightarrow> outbuf' ! (2 * i) = 0 \<and> outbuf' ! (2 * i + 1) = 0)
        \<and> (\<forall>a b. postprocess inbuf outbuf n (2 * g) = Some (a, b) \<longrightarrow> a ! i = 2 * inbuf' ! i)"
    if "i < n" and eq: "inbuf' = a" "outbuf' = b" for i inbuf' outbuf'
  proof -
    note v = postprocess_values [OF r \<open>i < n\<close>]
    have dbl: "a2 ! i = 2 * a ! i" if "postprocess inbuf outbuf n (2 * g) = Some (a2, b2)" for a2 b2
      using postprocess_values [OF that \<open>i < n\<close>] v by (simp add: scaled_double)
    from v have z: "inbuf ! i = 0 \<longrightarrow> b ! (2 * i) = 0 \<and> b ! (2 * i + 1) = 0" by simp
    from v have "a ! i = inbuf ! i / 10 * 32767 * (g / 100)" by (simp add: scaled_def)
    with v z dbl show ?thesis unfolding eq by simp
  qed
  with r show ?thesis by blast
qed

theorem format_stage_duplicates_and_scales_witness:
  "2 \<le> length [1, 0 :: real] \<and> 2 * 2 \<le> length [7, 7, 7, 7 :: int] \<and>
   list_all (fits_short 50) (take 2 [1, 0]) \<and>
   (\<exists>inbuf' outbuf'. postprocess [1, 0] [7, 7, 7, 7] 2 50 = Some (inbuf', outbuf') \<and>
      (\<forall>i<2. outbuf' ! (2 * i) = outbuf' ! (2 * i + 1)
            \<and> outbuf' ! (2 * i) = c_trunc (inbuf' ! i)
            \<and> inbuf' ! i = [1, 0] ! i / 10 * 32767 * (50 / 100)
            \<and> ([1, 0 :: real] ! i = 0 \<longrightarrow> outbuf' ! (2 * i) = 0 \<and> outbuf' ! (2 * i + 1) = 0)
            \<and> (\<forall>a b. postprocess [1, 0] [7, 7, 7, 7] 2 (2 * 50) = Some (a, b)
                   \<longrightarrow> a ! i = 2 * inbuf' ! i)))"
proof -
  have h1: "2 \<le> length [1, 0 :: real]" by simp
  have h2: "2 * 2 \<le> length [7, 7, 7, 7 :: int]" by simp
  have h3: "list_all (fits_short 50) (take 2 [1, 0])"
    by (simp add: fits_short_def float_to_short_def scaled_def c_trunc_def)
  from format_stage_duplicates_and_scales [OF h1 h2 h3] h1 h2 h3 show ?thesis by blast
qed

subsection \<open>Streaming-fatal conditions\<close>

text \<open>
  C1. The loop exits and the full teardown runs, as the claim says, but the exit code is
  0, not a non-zero one: every \<^verbatim>\<open>break\<close> of the run loop leads to \<^verbatim>\<open>return 0\<close>, and \<^verbatim>\<open>main\<close>
  passes that value to \<^verbatim>\<open>terminate\<close>. For every run whose options are accepted, whose sink,
  converter and source open, and in which complete passes are followed by a pass with a
  source error, a conversion failure or a sink write failure, the process exits with
  code 0 after the six calls of \<^verbatim>\<open>terminate\<close>.
\<close>

theorem streaming_fatal_exits_zero:
  assumes "getopt_loop e opts main_init world_init = Inr v"
    and "ao_open_live_ret e = Some d" and "src_new_ret e = Some s" and "0 \<le> fm_mpx_open_ret e"
    and "script e = goods @ bad # rest"
    and "list_all (pass_plays (v_mpx v)) goods" and "pass_fatal (v_mpx v) bad"
  shows "fst (main e opts) = Exited 0 \<and>
         (\<exists>evs. trace (snd (main e opts)) =
                  evs @ [Fm_mpx_close, Close_control_pipe, Ao_close (Some d), Ao_shutdown,
                         Src_delete None, Stdout Msg_stopped, Exit 0])"
proof -
  define w0 where "w0 = \<lparr>g_device = Some d, g_src_state = None,
      trace = startup_events e (v_audio_file v) (v_rds v) (v_pi v) (v_ps v) (v_rt v)
                ((v_alternative_freq v)[0 := v_af_size v]) (v_preemphasis_cutoff v)
                (v_control_pipe v) (v_pty v) (v_tp v)\<rparr>"
  define res where "res = run_loop (script e) (loop_control_pipe e (v_control_pipe v)) (v_rds v)
      (v_wait v) (v_mpx v) (Some s) src_data_init (replicate DATA_SIZE 0)
      (replicate OUTPUT_DATA_SIZE 0) w0"
  have m: "main e opts =
     (case res of
        (Inl out, w) \<Rightarrow> (out, w)
      | (Inr u, w) \<Rightarrow> (Exited 0, add_events (teardown_events (Some d) None @ [Exit 0]) w))"
    unfolding res_def w0_def by (rule main_started [OF assms(1-4)])
  have "fst res = Inr ()"
    unfolding res_def assms(5)
    by (rule run_loop_reaches_fatal [OF assms(6,7)]) simp_all
  then obtain w where "res = (Inr (), w)" by (cases res) auto
  with m have "main e opts = (Exited 0, add_events (teardown_events (Some d) None @ [Exit 0]) w)"
    by simp
  then show ?thesis by (simp add: teardown_events_def)
qed

theorem streaming_fatal_exits_zero_witness:
  "getopt_loop (example_env [good_pass, play_fails]) [] main_init world_init = Inr main_init \<and>
   ao_open_live_ret (example_env [good_pass, play_fails]) = Some 1 \<and>
   src_new_ret (example_env [good_pass, play_fails]) = Some 2 \<and>
   0 \<le> fm_mpx_open_ret (example_env [good_pass, play_fails]) \<and>
   script (example_env [good_pass, play_fails]) = [good_pass] @ play_fails # [] \<and>
   list_all (pass_plays (v_mpx main_init)) [good_pass] \<and>
   pass_fatal (v_mpx main_init) play_fails \<and>
   fst (main (example_env [good_pass, play_fails]) []) = Exited 0 \<and>
   (\<exists>evs. trace (snd (main (example_env [good_pass, play_fails]) [])) =
            evs @ [Fm_mpx_close, Close_control_pipe, Ao_close (Some 1), Ao_shutdown,
                   Src_delete None, Stdout Msg_stopped, Exit 0])"
proof -
  let ?e = "example_env [good_pass, play_fails]"
  have p: "getopt_loop ?e [] main_init world_init = Inr main_init" by simp
  have s: "ao_open_live_ret ?e = Some 1" "src_new_ret ?e = Some 2" "0 \<le> fm_mpx_open_ret ?e"
    "script ?e = [good_pass] @ play_fails # []"
    by (simp_all add: example_env_def)
  have ok: "pass_ok 10 good_pass"
    by (simp add: pass_ok_def good_pass_def fits_short_def float_to_short_def scaled_def
        c_trunc_def DATA_SIZE_def)
  then have g: "list_all (pass_plays (v_mpx main_init)) [good_pass]"
    by (simp add: pass_plays_def main_init_def good_pass_def)
  have "pass_ok 10 play_fails"
    using ok by (simp add: pass_ok_def play_fails_def)
  then have f: "pass_fatal (v_mpx main_init) play_fails"
    by (simp add: pass_fatal_def main_init_def play_fails_def)
  from streaming_fatal_exits_zero [OF p s g f] p s g f show ?thesis by blast
qed

subsection \<open>The converter's output limit\<close>

lemma no_src_process_startup:
  "Src_process st sd r \<notin> set (startup_events e file rds pi_code ps rt af cutoff cp pty tp)"
  by (auto simp: startup_events_def open_events_def source_events_def print_rds_events_def
      control_events_def split: option.splits)

lemma no_src_process_outside_loop:
  "Src_process st sd r \<notin> set (open_events e)"
  "Src_process st sd r \<notin> set (source_events e file cutoff)"
  "Src_process st sd r \<notin> set (teardown_events dev gst)"
  by (auto simp: open_events_def source_events_def teardown_events_def)

text \<open>
  C3. The claim is what the converter's interface requires, and the code misses it: in
  every run, every call of the converter is given the output limit
  \<^verbatim>\<open>OUTPUT_DATA_SIZE\<close> = 8192 frames together with the buffer \<^verbatim>\<open>resample_out\<close>, which holds
  \<^verbatim>\<open>DATA_SIZE\<close> = 4096 samples of the one channel; the interleaved buffer \<^verbatim>\<open>dev_out\<close> holds
  8192 shorts, that is 4096 frames of two channels. The limit is twice either capacity.
\<close>

theorem converter_limit_exceeds_buffers:
  assumes "Src_process st sd r \<in> set (trace (snd (main e opts)))"
  shows "output_frames sd = 8192 \<and> data_out sd = Some Resample_out \<and>
         capacity Resample_out = 4096 \<and> capacity Dev_out div 2 = 4096 \<and>
         \<not> output_frames sd \<le> capacity Resample_out"
proof -
  have sd: "sd = pass_src_data src_data_init"
  proof (cases "getopt_loop e opts main_init world_init")
    case (Inl stop)
    obtain out w where stop: "stop = (out, w)" by (cases stop)
    from getopt_loop_stops [OF Inl [unfolded stop]] Inl stop assms
    show ?thesis by (auto simp: main_def world_init_def)
  next
    case (Inr v)
    show ?thesis
    proof (cases rule: startup_cases [of e])
      case sink
      from main_sink_fails [OF Inr sink] assms show ?thesis
        by (simp add: no_src_process_outside_loop)
    next
      case (converter d)
      from main_converter_fails [OF Inr converter] assms show ?thesis
        by (simp add: no_src_process_outside_loop)
    next
      case (source d s)
      from main_source_fails [OF Inr source] assms show ?thesis
        by (simp add: no_src_process_outside_loop)
    next
      case (started d s)
      from main_started_trace [OF Inr started] obtain evs tail where
        ok: "loop_events_ok (loop_control_pipe e (v_control_pipe v)) (Some s) src_data_init evs"
        and tr: "trace (snd (main e opts)) =
           startup_events e (v_audio_file v) (v_rds v) (v_pi v) (v_ps v) (v_rt v)
             ((v_alternative_freq v)[0 := v_af_size v]) (v_preemphasis_cutoff v)
             (v_control_pipe v) (v_pty v) (v_tp v) @ evs @ tail"
        and tail: "tail = [] \<or> tail = teardown_events (Some d) None @ [Exit 0]"
        by blast
      from assms tr tail have "Src_process st sd r \<in> set evs"
        by (auto simp: no_src_process_startup no_src_process_outside_loop)
      with ok show ?thesis unfolding loop_events_ok_def by blast
    qed
  qed
  show ?thesis
    by (simp add: sd pass_src_data_def src_data_init_def DATA_SIZE_def OUTPUT_DATA_SIZE_def)
qed

theorem converter_limit_exceeds_buffers_witness:
  "Src_process (Some 2) (pass_src_data src_data_init) 5
     \<in> set (trace (snd (main (example_env [conversion_fails]) []))) \<and>
   output_frames (pass_src_data src_data_init) = 8192 \<and>
   data_out (pass_src_data src_data_init) = Some Resample_out \<and>
   capacity Resample_out = 4096 \<and> capacity Dev_out div 2 = 4096 \<and>
   \<not> output_frames (pass_src_data src_data_init) \<le> capacity Resample_out"
proof -
  let ?e = "example_env [conversion_fails]"
  have p: "getopt_loop ?e [] main_init world_init = Inr main_init" by simp
  have s: "ao_open_live_ret ?e = Some 1" "src_new_ret ?e = Some 2" "0 \<le> fm_mpx_open_ret ?e"
    by (simp_all add: example_env_def)
  have loop: "run_loop (script ?e) cp rds wait mpx st sd ro dout w =
      (Inr (), add_events ((if cp \<noteq> None then [Poll_control_pipe] else []) @
                           [Fm_mpx_get_samples rds wait 0, Src_process st (pass_src_data sd) 5,
                            Stderr (Msg_src_process_failed 5)]) w)"
    for cp rds wait mpx st sd ro dout w
    by (simp add: example_env_def conversion_fails_def good_pass_def Let_def emit_add_events
        pass_src_data_def)
  have m: "Src_process (Some 2) (pass_src_data src_data_init) 5
             \<in> set (trace (snd (main ?e [])))"
    by (simp add: main_started [OF p s] loop add_events_world)
  from converter_limit_exceeds_buffers [OF m] m show ?thesis by blast
qed

text \<open>
  What the limit allows: a converter that emits 4097 frames stays within the 8192 it was
  given and writes past the end of \<^verbatim>\<open>resample_out\<close>.
\<close>

lemma converter_overrun_undefined:
  "fst (main (example_env [good_pass\<lparr>src_process_out := replicate 4097 0\<rparr>]) []) = Undefined"
proof -
  let ?e = "example_env [good_pass\<lparr>src_process_out := replicate 4097 0\<rparr>]"
  have p: "getopt_loop ?e [] main_init world_init = Inr main_init" by simp
  have s: "ao_open_live_ret ?e = Some 1" "src_new_ret ?e = Some 2" "0 \<le> fm_mpx_open_ret ?e"
    by (simp_all add: example_env_def)
  have loop: "fst (run_loop (script ?e) cp rds wait mpx st sd ro dout w) = Inl Undefined"
    for cp rds wait mpx st sd ro dout w
    by (simp add: example_env_def good_pass_def Let_def DATA_SIZE_def)
  show ?thesis
    by (simp add: main_started_fst [OF p s] loop)
qed

subsection \<open>Startup failures\<close>

text \<open>
  C4 (as stated) fails: when the sink cannot be opened, \<^verbatim>\<open>generate_mpx\<close> returns 1 and \<^verbatim>\<open>main\<close>
  calls \<^verbatim>\<open>terminate\<close>, which closes the baseband source and the control pipe although
  neither has been opened, and calls \<^verbatim>\<open>ao_close\<close> and \<^verbatim>\<open>src_delete\<close> on null pointers.
\<close>

theorem sink_failure_releases_unacquired:
  "main ((example_env [])\<lparr>ao_open_live_ret := None\<rparr>) [] =
     (Exited 1,
      \<lparr>g_device = None, g_src_state = None,
       trace = map Sigaction [0..<25] @
         [Ao_initialize, Ao_default_driver_id 0, Ao_open_live 0 16 2 192000 1 None,
          Stderr Msg_cannot_open_sound_device,
          Fm_mpx_close, Close_control_pipe, Ao_close None, Ao_shutdown, Src_delete None,
          Stdout Msg_stopped, Exit 1]\<rparr>)"
proof -
  have "getopt_loop ((example_env [])\<lparr>ao_open_live_ret := None\<rparr>) [] main_init world_init =
          Inr main_init"
    by simp
  from main_sink_fails [OF this] show ?thesis
    by (simp add: example_env_def open_events_def teardown_events_def AO_FMT_LITTLE_def)
qed

text \<open>
  C4 (amended). For every startup in which opening the sink, creating the converter or
  opening the baseband source fails, \<^verbatim>\<open>generate_mpx\<close> stops at the failure (with a message
  on the error stream for the sink and the converter) and the process exits with code 1
  after the complete teardown: \<^verbatim>\<open>terminate\<close> issues all of its release calls, whether or
  not the resource had been acquired.
\<close>

theorem startup_failure_runs_full_teardown:
  assumes "getopt_loop e opts main_init world_init = Inr v"
  shows "(ao_open_live_ret e = None \<longrightarrow>
            main e opts =
              (Exited 1, \<lparr>g_device = None, g_src_state = None,
                 trace = open_events e @ [Stderr Msg_cannot_open_sound_device] @
                         [Fm_mpx_close, Close_control_pipe, Ao_close None, Ao_shutdown,
                          Src_delete None, Stdout Msg_stopped] @ [Exit 1]\<rparr>)) \<and>
         (\<forall>d. ao_open_live_ret e = Some d \<and> src_new_ret e = None \<longrightarrow>
            main e opts =
              (Exited 1, \<lparr>g_device = Some d, g_src_state = None,
                 trace = open_events e @
                         [Src_new SRC_SINC_FASTEST 1 None,
                          Stderr (Msg_src_new_failed (src_new_error e))] @
                         [Fm_mpx_close, Close_control_pipe, Ao_close (Some d), Ao_shutdown,
                          Src_delete None, Stdout Msg_stopped] @ [Exit 1]\<rparr>)) \<and>
         (\<forall>d s. ao_open_live_ret e = Some d \<and> src_new_ret e = Some s \<and> fm_mpx_open_ret e < 0 \<longrightarrow>
            main e opts =
              (Exited 1, \<lparr>g_device = Some d, g_src_state = None,
                 trace = open_events e @
                         [Src_new SRC_SINC_FASTEST 1 (Some s), Stdout Msg_starting,
                          Fm_mpx_open (v_audio_file v) DATA_SIZE (v_preemphasis_cutoff v)
                            (fm_mpx_open_ret e)] @
                         [Fm_mpx_close, Close_control_pipe, Ao_close (Some d), Ao_shutdown,
                          Src_delete None, Stdout Msg_stopped] @ [Exit 1]\<rparr>))"
proof (intro conjI allI impI)
  assume "ao_open_live_ret e = None"
  from main_sink_fails [OF assms this]
  show "main e opts =
      (Exited 1, \<lparr>g_device = None, g_src_state = None,
         trace = open_events e @ [Stderr Msg_cannot_open_sound_device] @
                 [Fm_mpx_close, Close_control_pipe, Ao_close None, Ao_shutdown,
                  Src_delete None, Stdout Msg_stopped] @ [Exit 1]\<rparr>)"
    by (simp add: teardown_events_def)
next
  fix d assume "ao_open_live_ret e = Some d \<and> src_new_ret e = None"
  then have "ao_open_live_ret e = Some d" "src_new_ret e = None" by simp_all
  from main_converter_fails [OF assms this]
  show "main e opts =
      (Exited 1, \<lparr>g_device = Some d, g_src_state = None,
         trace = open_events e @
                 [Src_new SRC_SINC_FASTEST 1 None, Stderr (Msg_src_new_failed (src_new_error e))] @
                 [Fm_mpx_close, Close_control_pipe, Ao_close (Some d), Ao_shutdown,
                  Src_delete None, Stdout Msg_stopped] @ [Exit 1]\<rparr>)"
    by (simp add: teardown_events_def)
next
  fix d s
  assume "ao_open_live_ret e = Some d \<and> src_new_ret e = Some s \<and> fm_mpx_open_ret e < 0"
  then have h: "ao_open_live_ret e = Some d" "src_new_ret e = Some s" "fm_mpx_open_ret e < 0"
    by simp_all
  from main_source_fails [OF assms h]
  show "main e opts =
      (Exited 1, \<lparr>g_device = Some d, g_src_state = None,
         trace = open_events e @
                 [Src_new SRC_SINC_FASTEST 1 (Some s), Stdout Msg_starting,
                  Fm_mpx_open (v_audio_file v) DATA_SIZE (v_preemphasis_cutoff v)
                    (fm_mpx_open_ret e)] @
                 [Fm_mpx_close, Close_control_pipe, Ao_close (Some d), Ao_shutdown,
                  Src_delete None, Stdout Msg_stopped] @ [Exit 1]\<rparr>)"
    by (simp add: teardown_events_def source_events_def h)
qed

theorem startup_failure_runs_full_teardown_witness:
  "getopt_loop ((example_env [])\<lparr>fm_mpx_open_ret := - 1\<rparr>) [(CHR ''a'', ''in.wav'')]
     main_init world_init = Inr (main_init\<lparr>v_audio_file := Some ''in.wav''\<rparr>) \<and>
   ao_open_live_ret ((example_env [])\<lparr>fm_mpx_open_ret := - 1\<rparr>) = Some 1 \<and>
   src_new_ret ((example_env [])\<lparr>fm_mpx_open_ret := - 1\<rparr>) = Some 2 \<and>
   fm_mpx_open_ret ((example_env [])\<lparr>fm_mpx_open_ret := - 1\<rparr>) < 0 \<and>
   main ((example_env [])\<lparr>fm_mpx_open_ret := - 1\<rparr>) [(CHR ''a'', ''in.wav'')] =
     (Exited 1, \<lparr>g_device = Some 1, g_src_state = None,
        trace = open_events ((example_env [])\<lparr>fm_mpx_open_ret := - 1\<rparr>) @
                [Src_new SRC_SINC_FASTEST 1 (Some 2), Stdout Msg_starting,
                 Fm_mpx_open (Some ''in.wav'') DATA_SIZE 0 (- 1)] @
                [Fm_mpx_close, Close_control_pipe, Ao_close (Some 1), Ao_shutdown,
                 Src_delete None, Stdout Msg_stopped] @ [Exit 1]\<rparr>)"
proof -
  let ?e = "(example_env [])\<lparr>fm_mpx_open_ret := - 1\<rparr>"
  have p: "getopt_loop ?e [(CHR ''a'', ''in.wav'')] main_init world_init =
             Inr (main_init\<lparr>v_audio_file := Some ''in.wav''\<rparr>)"
    by (simp add: switch_opt_def)
  have h: "ao_open_live_ret ?e = Some 1 \<and> src_new_ret ?e = Some 2 \<and> fm_mpx_open_ret ?e < 0"
    by (simp add: example_env_def)
  from startup_failure_runs_full_teardown [OF p] h p show ?thesis
    by (simp add: main_init_def example_env_def)
qed

subsection \<open>Teardown\<close>

lemma run_stmts_take:
  "run_stmts (take k terminate_stmts) w =
     add_events (take k (teardown_events (g_device w) (g_src_state w))) w"
proof -
  have "k = 0 \<or> k = 1 \<or> k = 2 \<or> k = 3 \<or> k = 4 \<or> k = 5 \<or> 6 \<le> k" by arith
  then show ?thesis
    by (elim disjE)
      (simp_all add: terminate_stmts_def teardown_events_def run_stmts_def emit_add_events)
qed

lemma terminate_interrupted_adds:
  "terminate_interrupted k num sig w =
     (Exited sig,
      add_events (take k (teardown_events (g_device w) (g_src_state w)) @
                  teardown_events (g_device w) (g_src_state w) @ [Exit sig]) w)"
  by (simp add: terminate_interrupted_def run_stmts_take terminate_adds)

lemma count_list_absent: "x \<notin> set xs \<Longrightarrow> count_list xs x = 0"
  by (induction xs) auto

text \<open>
  C2 (as stated) fails: \<^verbatim>\<open>terminate\<close> keeps no record of what it has released. In the run
  below the source reports an error in the first pass, \<^verbatim>\<open>main\<close> calls \<^verbatim>\<open>terminate(0)\<close>, and
  signal 2 arrives when its six calls are done and \<^verbatim>\<open>exit\<close> is not yet reached: the handler
  closes the source, the control pipe and the sink (the same handle) a second time.
\<close>

theorem second_terminate_releases_again:
  "count_list (trace (snd (main_interrupted 6 2 (example_env [end_of_stream]) []))) Fm_mpx_close = 2 \<and>
   count_list (trace (snd (main_interrupted 6 2 (example_env [end_of_stream]) [])))
     Close_control_pipe = 2 \<and>
   count_list (trace (snd (main_interrupted 6 2 (example_env [end_of_stream]) [])))
     (Ao_close (Some 1)) = 2"
proof -
  let ?e = "example_env [end_of_stream]"
  have s: "ao_open_live_ret ?e = Some 1" "src_new_ret ?e = Some 2" "0 \<le> fm_mpx_open_ret ?e"
    by (simp_all add: example_env_def)
  have sig: "\<And>x. x \<notin> Sigaction ` set [0..<25] \<Longrightarrow> count_list (map Sigaction [0..<25]) x = 0"
    by (rule count_list_absent) simp
  have loop: "run_loop (script ?e) cp rds wait mpx st sd ro dout w =
      (Inr (), add_events ((if cp \<noteq> None then [Poll_control_pipe] else []) @
                           [Fm_mpx_get_samples rds wait (- 1)]) w)"
    for cp rds wait mpx st sd ro dout w
    by (simp add: example_env_def end_of_stream_def good_pass_def Let_def emit_add_events)
  have "trace (snd (main_interrupted 6 2 ?e [])) =
      startup_events ?e None 1 0x1234 ''mpxgen'' ''mpxgen: FM Stereo and RDS encoder''
        ((replicate 100 0)[0 := 0]) 0 None 0 0 @
      [Fm_mpx_get_samples 1 0 (- 1)] @
      teardown_events (Some 1) None @ teardown_events (Some 1) None @ [Exit 2]"
    by (simp add: main_interrupted_def main_init_def generate_mpx_started [OF s] loop s
        terminate_interrupted_adds world_init_events add_events_world loop_control_pipe_def
        teardown_events_def)
  then show ?thesis
    by (simp add: startup_events_def open_events_def source_events_def print_rds_events_def
        control_events_def teardown_events_def sig image_iff)
qed

text \<open>
  C2 (amended). \<^verbatim>\<open>terminate\<close> is not idempotent: every invocation issues the same release
  calls, in the same order and without a check. When a second invocation \<^verbatim>\<open>terminate(sig)\<close>
  starts after \<open>k\<close> statements of a first one, the trace grows by the first \<open>k\<close> calls,
  then by all six calls again, and the process exits with \<open>sig\<close>; so a release call the
  first invocation had reached is issued twice.
\<close>

theorem terminate_repeats_release_calls:
  "fst (terminate_interrupted k num sig w) = Exited sig \<and>
   trace (snd (terminate_interrupted k num sig w)) =
     trace w @
     take k [Fm_mpx_close, Close_control_pipe, Ao_close (g_device w), Ao_shutdown,
             Src_delete (g_src_state w), Stdout Msg_stopped] @
     [Fm_mpx_close, Close_control_pipe, Ao_close (g_device w), Ao_shutdown,
      Src_delete (g_src_state w), Stdout Msg_stopped] @ [Exit sig]"
  by (simp add: terminate_interrupted_adds teardown_events_def)

subsection \<open>Order of acquisition and release\<close>

lemma map_filter_append: "List.map_filter f (xs @ ys) = List.map_filter f xs @ List.map_filter f ys"
  by (simp add: List.map_filter_def)


lemma acquisitions_simps [simp]:
  "acquisitions [] = []"
  "acquisitions (ev # evs) = (case acquired ev of None \<Rightarrow> acquisitions evs | Some r \<Rightarrow> r # acquisitions evs)"
  "acquisitions (xs @ ys) = acquisitions xs @ acquisitions ys"
  by (simp_all add: acquisitions_def map_filter_append split: option.split)

lemma release_calls_simps [simp]:
  "release_calls [] = []"
  "release_calls (ev # evs) = (case release_call ev of None \<Rightarrow> release_calls evs | Some r \<Rightarrow> r # release_calls evs)"
  "release_calls (xs @ ys) = release_calls xs @ release_calls ys"
  by (simp_all add: release_calls_def map_filter_append split: option.split)



lemma open_events_neutral [simp]:
  "acquisitions (open_events e) = (case ao_open_live_ret e of None \<Rightarrow> [] | Some d \<Rightarrow> [Sink])"
  "release_calls (open_events e) = []"
proof -
  have "acquisitions (map Sigaction xs) = []" "release_calls (map Sigaction xs) = []" for xs
    by (induction xs) simp_all
  then show "acquisitions (open_events e) = (case ao_open_live_ret e of None \<Rightarrow> [] | Some d \<Rightarrow> [Sink])"
    "release_calls (open_events e) = []"
    by (simp_all add: open_events_def split: option.split)
qed

lemma print_rds_events_neutral [simp]:
  "acquisitions (print_rds_events rds pi_code ps rt af pty) = []"
  "release_calls (print_rds_events rds pi_code ps rt af pty) = []"
proof -
  have "acquisitions (map (\<lambda>f. Stdout (g f)) xs) = []"
    "release_calls (map (\<lambda>f. Stdout (g f)) xs) = []" for g :: "nat \<Rightarrow> message" and xs
    by (induction xs) simp_all
  then show "acquisitions (print_rds_events rds pi_code ps rt af pty) = []"
    "release_calls (print_rds_events rds pi_code ps rt af pty) = []"
    by (simp_all add: print_rds_events_def)
qed


lemma teardown_events_orders [simp]:
  "acquisitions (teardown_events dev st) = []"
  "release_calls (teardown_events dev st) = [Source, Control_channel, Sink, Converter]"
  by (simp_all add: teardown_events_def)




subsection \<open>Option handling\<close>










lemma good_pass_ok: "0 \<le> g \<Longrightarrow> g \<le> 100 \<Longrightarrow> pass_ok g good_pass"
proof -
  assume g: "0 \<le> g" "g \<le> 100"
  have "scaled (1 / 2) g = g * (32767 / 2000)" by (simp add: scaled_def)
  moreover have "0 \<le> g * (32767 / 2000)" using g by simp
  moreover have "g * (32767 / 2000) \<le> 100 * (32767 / 2000)"
    using g by (intro mult_right_mono) simp_all
  ultimately have "0 \<le> scaled (1 / 2) g" "scaled (1 / 2) g < 32768" by simp_all
  then have "fits_short g (1 / 2)"
    by (simp add: fits_short_def float_to_short_def c_trunc_def floor_le_iff le_floor_iff)
  then show ?thesis
    by (simp add: pass_ok_def good_pass_def fits_short_def float_to_short_def DATA_SIZE_def)
qed







subsection \<open>Control pipe\<close>

lemma no_poll_startup:
  "Poll_control_pipe \<notin> set (startup_events e file rds pi_code ps rt af cutoff cp pty tp)"
  by (auto simp: startup_events_def open_events_def source_events_def print_rds_events_def
      control_events_def split: option.splits)

text \<open>
  C8. When a control pipe path is given and the pipe cannot be opened, while sink,
  converter and source open and the collaborators carry the first pass through (the
  source delivers a block, the converter converts it, the samples fit, the sink accepts
  them), the failure is logged, the loop is entered without polling, and the first pass
  is completed with a write to the sink: the trace has the failed open and its message,
  immediately followed by the three calls of the first pass, and the control pipe is
  never polled in the whole run.
\<close>

theorem control_pipe_failure_not_fatal:
  assumes "getopt_loop e opts main_init world_init = Inr v"
    and "v_control_pipe v = Some path" and "open_control_pipe_ret e \<noteq> 0"
    and "ao_open_live_ret e = Some d" and "src_new_ret e = Some s" and "0 \<le> fm_mpx_open_ret e"
    and "script e = it # its" and "pass_ok (v_mpx v) it" and "ao_play_ret it \<noteq> 0"
  shows "(\<exists>before after. trace (snd (main e opts)) =
            before @
            [Open_control_pipe path (open_control_pipe_ret e), Stdout (Msg_failed_control path),
             Fm_mpx_get_samples (v_rds v) (v_wait v) (get_samples_ret it),
             Src_process (Some s) (pass_src_data src_data_init) (src_process_ret it),
             Ao_play (Some d) (interleaved (src_process_out it) (v_mpx v))
               (length (src_process_out it) * 4) (ao_play_ret it)] @ after) \<and>
         Poll_control_pipe \<notin> set (trace (snd (main e opts)))"
proof -
  define w0 where "w0 = \<lparr>g_device = Some d, g_src_state = None,
      trace = startup_events e (v_audio_file v) (v_rds v) (v_pi v) (v_ps v) (v_rt v)
                ((v_alternative_freq v)[0 := v_af_size v]) (v_preemphasis_cutoff v)
                (v_control_pipe v) (v_pty v) (v_tp v)\<rparr>"
  define first where "first = pass_events None (v_rds v) (v_wait v) (v_mpx v) (Some s)
      src_data_init (Some d) it"
  have cp: "loop_control_pipe e (v_control_pipe v) = None"
    using assms(3) by (simp add: loop_control_pipe_def)
  have m: "main e opts =
     (case run_loop (it # its) None (v_rds v) (v_wait v) (v_mpx v) (Some s) src_data_init
             (replicate DATA_SIZE 0) (replicate OUTPUT_DATA_SIZE 0) w0 of
        (Inl out, w) \<Rightarrow> (out, w)
      | (Inr u, w) \<Rightarrow> (Exited 0, add_events (teardown_events (Some d) None @ [Exit 0]) w))"
    using main_started [OF assms(1,4,5,6)] by (simp add: cp assms(7) w0_def)
  from run_loop_pass [OF assms(8), of "replicate DATA_SIZE 0" "replicate OUTPUT_DATA_SIZE 0" its
      None "v_rds v" "v_wait v" "Some s" src_data_init w0] assms(9)
  obtain ro' dout' where
    step: "run_loop (it # its) None (v_rds v) (v_wait v) (v_mpx v) (Some s) src_data_init
             (replicate DATA_SIZE 0) (replicate OUTPUT_DATA_SIZE 0) w0 =
           run_loop its None (v_rds v) (v_wait v) (v_mpx v) (Some s) (pass_src_data src_data_init)
             ro' dout' (add_events first w0)"
    by (auto simp: first_def w0_def)
  from run_loop_adds [of its None "v_rds v" "v_wait v" "v_mpx v" "Some s"
      "pass_src_data src_data_init" ro' dout' "add_events first w0"]
  obtain evs where
    evs: "snd (run_loop its None (v_rds v) (v_wait v) (v_mpx v) (Some s)
                 (pass_src_data src_data_init) ro' dout' (add_events first w0)) =
          add_events (first @ evs) w0"
    and ok: "loop_events_ok None (Some s) src_data_init evs"
    by auto
  obtain r w where rw: "run_loop its None (v_rds v) (v_wait v) (v_mpx v) (Some s)
      (pass_src_data src_data_init) ro' dout' (add_events first w0) = (r, w)"
    by (cases "run_loop its None (v_rds v) (v_wait v) (v_mpx v) (Some s)
      (pass_src_data src_data_init) ro' dout' (add_events first w0)")
  with evs have w: "w = add_events (first @ evs) w0" by simp
  define tail where "tail = (case r of Inl out \<Rightarrow> [] | Inr u \<Rightarrow> teardown_events (Some d) None @ [Exit 0])"
  have tr: "trace (snd (main e opts)) = trace w0 @ first @ evs @ tail"
    using m step rw w by (cases r) (simp_all add: tail_def)
  have st: "trace w0 =
      (open_events e @ source_events e (v_audio_file v) (v_preemphasis_cutoff v) @
       [Set_rds_pi (v_pi v), Set_rds_ps (v_ps v), Set_rds_rt (v_rt v), Set_rds_pty (v_pty v),
        Set_rds_tp (v_tp v), Set_rds_ms 1, Set_rds_ab 0, Stdout Msg_rds_options] @
       print_rds_events (v_rds v) (v_pi v) (v_ps v) (v_rt v)
         ((v_alternative_freq v)[0 := v_af_size v]) (v_pty v)) @
      [Open_control_pipe path (open_control_pipe_ret e), Stdout (Msg_failed_control path)]"
    using assms(2,3) by (simp add: w0_def startup_events_def control_events_def)
  have fi: "first =
      [Fm_mpx_get_samples (v_rds v) (v_wait v) (get_samples_ret it),
       Src_process (Some s) (pass_src_data src_data_init) (src_process_ret it),
       Ao_play (Some d) (interleaved (src_process_out it) (v_mpx v))
         (length (src_process_out it) * 4) (ao_play_ret it)]"
    by (simp add: first_def pass_events_def)
  have shape: "\<exists>before after. trace (snd (main e opts)) =
      before @
      [Open_control_pipe path (open_control_pipe_ret e), Stdout (Msg_failed_control path),
       Fm_mpx_get_samples (v_rds v) (v_wait v) (get_samples_ret it),
       Src_process (Some s) (pass_src_data src_data_init) (src_process_ret it),
       Ao_play (Some d) (interleaved (src_process_out it) (v_mpx v))
         (length (src_process_out it) * 4) (ao_play_ret it)] @ after"
    unfolding tr st fi by (intro exI [of _ "evs @ tail"] exI) simp
  have "Poll_control_pipe \<notin> set (trace w0)"
    by (simp add: w0_def no_poll_startup)
  moreover have "Poll_control_pipe \<notin> set first" by (simp add: fi)
  moreover from ok have "Poll_control_pipe \<notin> set evs" by (simp add: loop_events_ok_def)
  moreover have "Poll_control_pipe \<notin> set tail"
    by (cases r) (simp_all add: tail_def teardown_events_def)
  ultimately have "Poll_control_pipe \<notin> set (trace (snd (main e opts)))"
    by (simp add: tr)
  with shape show ?thesis by blast
qed

theorem control_pipe_failure_not_fatal_witness:
  "getopt_loop ((example_env [good_pass, end_of_stream])\<lparr>open_control_pipe_ret := - 1\<rparr>)
     [(CHR ''C'', ''/tmp/ctl'')] main_init world_init =
     Inr (main_init\<lparr>v_control_pipe := Some ''/tmp/ctl''\<rparr>) \<and>
   open_control_pipe_ret ((example_env [good_pass, end_of_stream])\<lparr>open_control_pipe_ret := - 1\<rparr>) \<noteq> 0 \<and>
   script ((example_env [good_pass, end_of_stream])\<lparr>open_control_pipe_ret := - 1\<rparr>) =
     good_pass # [end_of_stream] \<and>
   pass_ok (v_mpx (main_init\<lparr>v_control_pipe := Some ''/tmp/ctl''\<rparr>)) good_pass \<and>
   ao_play_ret good_pass \<noteq> 0 \<and>
   (\<exists>before after.
      trace (snd (main ((example_env [good_pass, end_of_stream])\<lparr>open_control_pipe_ret := - 1\<rparr>)
                    [(CHR ''C'', ''/tmp/ctl'')])) =
        before @
        [Open_control_pipe ''/tmp/ctl'' (- 1), Stdout (Msg_failed_control ''/tmp/ctl''),
         Fm_mpx_get_samples 1 0 0,
         Src_process (Some 2) (pass_src_data src_data_init) 0,
         Ao_play (Some 1) (interleaved [0, 1 / 2] 10) 8 1] @ after) \<and>
   Poll_control_pipe \<notin>
     set (trace (snd (main ((example_env [good_pass, end_of_stream])\<lparr>open_control_pipe_ret := - 1\<rparr>)
                       [(CHR ''C'', ''/tmp/ctl'')])))"
proof -
  let ?e = "(example_env [good_pass, end_of_stream])\<lparr>open_control_pipe_ret := - 1\<rparr>"
  let ?v = "main_init\<lparr>v_control_pipe := Some ''/tmp/ctl''\<rparr>"
  have p: "getopt_loop ?e [(CHR ''C'', ''/tmp/ctl'')] main_init world_init = Inr ?v"
    by (simp add: switch_opt_def)
  have c: "v_control_pipe ?v = Some ''/tmp/ctl''" "open_control_pipe_ret ?e \<noteq> 0"
    by (simp_all add: example_env_def)
  have s: "ao_open_live_ret ?e = Some 1" "src_new_ret ?e = Some 2" "0 \<le> fm_mpx_open_ret ?e"
    "script ?e = good_pass # [end_of_stream]"
    by (simp_all add: example_env_def)
  have ok: "pass_ok (v_mpx ?v) good_pass"
    by (rule good_pass_ok) (simp_all add: main_init_def)
  have pl: "ao_play_ret good_pass \<noteq> 0" by (simp add: good_pass_def)
  from control_pipe_failure_not_fatal [OF p c s ok pl] p c s ok pl
  show ?thesis
    by (simp add: main_init_def good_pass_def example_env_def)
qed

end
